theory Spec2Isabelle
  imports Complex_Main "HOL-Library.AList"
begin

section \<open>Conventions of the embedding\<close>

text \<open>
  The strategy and risk engine (\<^verbatim>\<open>strategy_risk_engine/*.py\<close>), the position
  reconciler (\<^verbatim>\<open>reconciliation/reconciler.py\<close>) and the order manager's stop-loss
  test (\<^verbatim>\<open>src/execution/order_manager.py\<close>) are embedded as HOL functions.

  \<^item> A Python \<^verbatim>\<open>float\<close> is a \<^typ>\<open>real\<close>: a finite value, no NaN and no infinity.
    The sizer, the evaluator and the stop-loss test are modelled with exact
    arithmetic: what is proved of them is about comparisons, branch order and
    bookkeeping.  \<^verbatim>\<open>record_trade_pnl\<close> compares a computed drawdown with a limit, so
    its arithmetic is rounded to binary64 as Python rounds it (\<open>round_double\<close>
    below).
  \<^item> A Python \<^verbatim>\<open>int\<close> is an \<^typ>\<open>int\<close>.
  \<^item> A timezone-aware \<^verbatim>\<open>datetime\<close> is the instant it denotes: an \<^typ>\<open>int\<close> of
    microseconds since 1970-01-01T00:00:00Z.  A \<^verbatim>\<open>timedelta\<close> is an \<^typ>\<open>int\<close> of
    microseconds.  The year range of \<^verbatim>\<open>datetime\<close> is not modelled.
  \<^item> An exception is a value: functions that can raise return \<open>error + 'a\<close>, and a
    method that mutates its object before raising returns the mutated object too.
\<close>

datatype error = KeyError | ValueError | ZeroDivisionError | IndexError | AttributeError

subsection \<open>Double-precision rounding\<close>

text \<open>
  IEEE 754 binary64 with round-to-nearest, ties-to-even, the arithmetic of a Python
  \<^verbatim>\<open>float\<close>: a non-zero real between \<open>2 ^ e\<close> and \<open>2 ^ (e + 1)\<close> is rounded to the
  nearest multiple of \<open>2 ^ (e - 52)\<close>, and below \<open>2 ^ - 1022\<close> (the subnormal range) to
  the nearest multiple of \<open>2 ^ - 1074\<close>.  Overflow to infinity is not modelled.
\<close>

text \<open>Python's \<^verbatim>\<open>int.bit_length\<close> on a natural number.\<close>

fun bit_length :: "nat \<Rightarrow> nat" where
  "bit_length n = (if n = 0 then 0 else Suc (bit_length (n div 2)))"

declare bit_length.simps [simp del]

text \<open>The \<open>e\<close> with \<open>2 ^ e \<le> \<bar>x\<bar> < 2 ^ (e + 1)\<close>, for a non-zero \<open>x\<close>.\<close>

definition binary_exponent :: "real \<Rightarrow> int" where
  "binary_exponent x =
     (if \<bar>x\<bar> \<ge> 1 then int (bit_length (nat \<lfloor>\<bar>x\<bar>\<rfloor>)) - 1
      else - int (bit_length (nat (\<lceil>1 / \<bar>x\<bar>\<rceil> - 1))))"

definition pow2 :: "int \<Rightarrow> real" where
  "pow2 k = (if k \<ge> 0 then 2 ^ nat k else 1 / 2 ^ nat (- k))"

definition round_half_even :: "real \<Rightarrow> int" where
  "round_half_even y =
     (let n = \<lfloor>y\<rfloor>; r = y - of_int n in
      if r < 1 / 2 then n
      else if r > 1 / 2 then n + 1
      else if even n then n else n + 1)"

definition round_double :: "real \<Rightarrow> real" where
  "round_double x =
     (if x = 0 then 0
      else
        let e = max (binary_exponent x) (- 1022);
            quantum = pow2 (e - 52)
        in sgn x * of_int (round_half_even (\<bar>x\<bar> / quantum)) * quantum)"

text \<open>\<^verbatim>\<open>a + b\<close>, \<^verbatim>\<open>a - b\<close> and \<^verbatim>\<open>a / b\<close> (for a non-zero \<^verbatim>\<open>b\<close>) on floats.\<close>

definition float_add :: "real \<Rightarrow> real \<Rightarrow> real" where
  "float_add a b = round_double (a + b)"

definition float_sub :: "real \<Rightarrow> real \<Rightarrow> real" where
  "float_sub a b = round_double (a - b)"

definition float_div :: "real \<Rightarrow> real \<Rightarrow> real" where
  "float_div a b = round_double (a / b)"

subsection \<open>Instants\<close>

type_synonym datetime = int
type_synonym timedelta = int

definition microseconds_per_day :: int where
  "microseconds_per_day = 86400000000"

definition td_hours :: "int \<Rightarrow> timedelta" where
  "td_hours h = h * 3600000000"

definition td_minutes :: "int \<Rightarrow> timedelta" where
  "td_minutes m = m * 60000000"

definition td_seconds :: "int \<Rightarrow> timedelta" where
  "td_seconds s = s * 1000000"

text \<open>
  Days from 1970-01-01 to a date of the proleptic Gregorian calendar, the calendar
  of Python's \<^verbatim>\<open>datetime\<close>; used only to write the instants of the scenarios the
  way the tests write them (\<^verbatim>\<open>datetime(2025, 1, 1, 23, 59, tzinfo=UTC)\<close>).
\<close>

definition days_from_civil :: "int \<Rightarrow> int \<Rightarrow> int \<Rightarrow> int" where
  "days_from_civil y m d =
     (let y' = (if m \<le> 2 then y - 1 else y);
          era = y' div 400;
          yoe = y' - era * 400;
          mp = (m + 9) mod 12;
          doy = (153 * mp + 2) div 5 + d - 1;
          doe = yoe * 365 + yoe div 4 - yoe div 100 + doy
      in era * 146097 + doe - 719468)"

definition datetime_utc :: "int \<Rightarrow> int \<Rightarrow> int \<Rightarrow> int \<Rightarrow> int \<Rightarrow> datetime" where
  "datetime_utc y m d hh mm =
     days_from_civil y m d * microseconds_per_day + td_hours hh + td_minutes mm"


section \<open>Data model (\<^verbatim>\<open>strategy_risk_engine/models.py\<close>)\<close>

datatype side = BUY | SELL

datatype entry_type = MARKET | STOP | LIMIT

record candle =
  c_symbol :: string
  c_open_time :: datetime
  c_close_time :: datetime
  c_open :: real
  c_high :: real
  c_low :: real
  c_close :: real

text \<open>\<^verbatim>\<open>StopLossKind = Literal["fixed", "trailing"]\<close>\<close>

datatype stop_loss_kind = Fixed | Trailing

record stop_loss_spec =
  sl_kind :: stop_loss_kind
  sl_price :: "real option"
  sl_trail_by :: "real option"

definition resolved_stop_price :: "stop_loss_spec \<Rightarrow> real \<Rightarrow> side \<Rightarrow> error + real" where
  "resolved_stop_price sl entry_price sd =
     (if sl_kind sl = Fixed then
        (case sl_price sl of None \<Rightarrow> Inl ValueError | Some p \<Rightarrow> Inr p)
      else
        (case sl_trail_by sl of
           None \<Rightarrow> Inl ValueError
         | Some t \<Rightarrow> if sd = BUY then Inr (entry_price - t) else Inr (entry_price + t)))"

record take_profit_spec =
  tp_price :: real

text \<open>
  \<^verbatim>\<open>OrderPlan.stop_loss\<close> is annotated as a \<^verbatim>\<open>StopLossSpec\<close>, but the risk manager
  tests it against \<^verbatim>\<open>None\<close>, so the field is optional here.
\<close>

record order_plan =
  plan_va_id :: string
  plan_symbol :: string
  plan_side :: side
  plan_entry_type :: entry_type
  plan_entry_price :: real
  plan_risk_tag :: string
  plan_stop_loss :: "stop_loss_spec option"
  plan_take_profit :: "take_profit_spec option"

record position =
  pos_va_id :: string
  pos_symbol :: string
  pos_qty :: real
  pos_avg_entry_price :: real

definition notional :: "position \<Rightarrow> real" where
  "notional p = \<bar>pos_qty p\<bar> * pos_avg_entry_price p"

definition pos_side :: "position \<Rightarrow> side option" where
  "pos_side p = (if pos_qty p > 0 then Some BUY else if pos_qty p < 0 then Some SELL else None)"

record review_result =
  approved :: bool
  reason :: "string option"
  rr_qty :: "real option"


section \<open>Sizer (\<^verbatim>\<open>strategy_risk_engine/sizing.py\<close>)\<close>

record market_constraints =
  min_qty :: real
  min_notional :: real

record size_result =
  size_qty :: real
  size_reason :: "string option"

record size_calculator =
  sc_risk_per_trade_pct :: real
  sc_default_leverage :: real
  sc_max_leverage :: real
  sc_market_constraints :: market_constraints

text \<open>
  The \<^verbatim>\<open>decay\<close> variable of \<^verbatim>\<open>calculate_qty\<close>:
  \<^verbatim>\<open>decay = 1.0; if consecutive_losses >= 4: decay = 0.25; elif consecutive_losses >= 2: decay = 0.5\<close>.
\<close>

definition loss_decay :: "int \<Rightarrow> real" where
  "loss_decay consecutive_losses =
     (if consecutive_losses \<ge> 4 then 0.25
      else if consecutive_losses \<ge> 2 then 0.5
      else 1.0)"

definition calculate_qty ::
  "size_calculator \<Rightarrow> order_plan \<Rightarrow> real \<Rightarrow> int \<Rightarrow> real option \<Rightarrow> error + size_result" where
  "calculate_qty sc plan virtual_equity consecutive_losses leverage =
     (if virtual_equity \<le> 0 then
        Inr \<lparr>size_qty = 0, size_reason = Some ''virtual_equity_non_positive''\<rparr>
      else
        let lev = (case leverage of None \<Rightarrow> sc_default_leverage sc | Some l \<Rightarrow> l);
            lev = min lev (sc_max_leverage sc)
        in
        if lev \<le> 0 then
          Inr \<lparr>size_qty = 0, size_reason = Some ''leverage_non_positive''\<rparr>
        else
          (case plan_stop_loss plan of
             None \<Rightarrow> Inl AttributeError
           | Some sl \<Rightarrow>
              (case resolved_stop_price sl (plan_entry_price plan) (plan_side plan) of
                 Inl e \<Rightarrow> Inl e
               | Inr resolved_sl \<Rightarrow>
                  let per_unit_risk = \<bar>plan_entry_price plan - resolved_sl\<bar> in
                  if per_unit_risk \<le> 0 then
                    Inr \<lparr>size_qty = 0, size_reason = Some ''stop_loss_distance_zero''\<rparr>
                  else
                    let risk_budget = virtual_equity * sc_risk_per_trade_pct sc;
                        raw_qty = risk_budget / per_unit_risk;
                        max_notional = virtual_equity * lev
                    in
                    if plan_entry_price plan = 0 then Inl ZeroDivisionError
                    else
                      let qty_cap = max_notional / plan_entry_price plan;
                          qty = min raw_qty qty_cap;
                          qty = qty * loss_decay consecutive_losses
                      in
                      if qty < min_qty (sc_market_constraints sc) then
                        Inr \<lparr>size_qty = 0, size_reason = Some ''below_min_qty''\<rparr>
                      else if qty * plan_entry_price plan < min_notional (sc_market_constraints sc) then
                        Inr \<lparr>size_qty = 0, size_reason = Some ''below_min_notional''\<rparr>
                      else
                        Inr \<lparr>size_qty = (if plan_side plan = SELL then - qty else qty),
                             size_reason = None\<rparr>)))"


section \<open>Strategy evaluator (\<^verbatim>\<open>strategy_risk_engine/strategy.py\<close>)\<close>

text \<open>\<^verbatim>\<open>TpMode = Literal["fixed", "trailing"]\<close>\<close>

datatype tp_mode = TpFixed | TpTrailing

record strategy_config =
  lookback_candles :: int
  cfg_tp_mode :: tp_mode
  fixed_tp_r :: real
  sl_range_mult :: real
  min_stop_distance :: real
  risk_tag :: string

text \<open>Python's \<^verbatim>\<open>xs[i:]\<close>: a negative start counts from the end; the start is clamped.\<close>

definition py_slice_from :: "'a list \<Rightarrow> int \<Rightarrow> 'a list" where
  "py_slice_from xs i =
     (let n = int (length xs);
          s = (if i < 0 then max (n + i) 0 else min i n)
      in drop (nat s) xs)"

text \<open>Python's \<^verbatim>\<open>max\<close> and \<^verbatim>\<open>min\<close> of an iterable raise \<^verbatim>\<open>ValueError\<close> when it is empty.\<close>

definition py_max :: "real list \<Rightarrow> error + real" where
  "py_max xs = (case xs of [] \<Rightarrow> Inl ValueError | x # ys \<Rightarrow> Inr (foldl max x ys))"

definition py_min :: "real list \<Rightarrow> error + real" where
  "py_min xs = (case xs of [] \<Rightarrow> Inl ValueError | x # ys \<Rightarrow> Inr (foldl min x ys))"

text \<open>The list comprehension that opens \<^verbatim>\<open>evaluate\<close>.\<close>

definition closed_candles :: "string \<Rightarrow> datetime \<Rightarrow> candle list \<Rightarrow> candle list" where
  "closed_candles symbol as_of candles =
     filter (\<lambda>c. c_symbol c = symbol \<and> c_close_time c \<le> as_of) candles"

text \<open>
  Lines 53 to 81 of \<^verbatim>\<open>evaluate\<close>: what is built once the side is known.  The
  reference window is not empty there (\<^verbatim>\<open>max\<close> has returned).
\<close>

definition build_plan ::
  "strategy_config \<Rightarrow> string \<Rightarrow> string \<Rightarrow> candle \<Rightarrow> candle list \<Rightarrow> side \<Rightarrow> order_plan" where
  "build_plan config va_id symbol trigger reference sd =
     (let avg_range = sum_list (map (\<lambda>c. c_high c - c_low c) reference) / real (length reference);
          stop_distance = max (min_stop_distance config) (avg_range * sl_range_mult config);
          entry_price = c_close trigger;
          sl_p = (if sd = BUY then entry_price - stop_distance else entry_price + stop_distance);
          tp_p = (if sd = BUY then entry_price + fixed_tp_r config * stop_distance
                  else entry_price - fixed_tp_r config * stop_distance);
          stop_loss = (if cfg_tp_mode config = TpFixed
                       then \<lparr>sl_kind = Fixed, sl_price = Some sl_p, sl_trail_by = None\<rparr>
                       else \<lparr>sl_kind = Trailing, sl_price = None, sl_trail_by = Some stop_distance\<rparr>);
          take_profit = (if cfg_tp_mode config = TpFixed then Some \<lparr>tp_price = tp_p\<rparr> else None)
      in \<lparr>plan_va_id = va_id, plan_symbol = symbol, plan_side = sd,
          plan_entry_type = MARKET, plan_entry_price = entry_price,
          plan_risk_tag = risk_tag config,
          plan_stop_loss = Some stop_loss, plan_take_profit = take_profit\<rparr>)"

definition evaluate ::
  "strategy_config \<Rightarrow> string \<Rightarrow> string \<Rightarrow> datetime \<Rightarrow> candle list \<Rightarrow> error + order_plan option" where
  "evaluate config va_id symbol as_of candles =
     (let closed = closed_candles symbol as_of candles in
      if int (length closed) < lookback_candles config + 1 then Inr None
      else
        let window = py_slice_from closed (- (lookback_candles config + 1)) in
        if window = [] then Inl IndexError
        else
          let trigger = last window;
              reference = butlast window
          in
          (case py_max (map c_high reference) of
             Inl e \<Rightarrow> Inl e
           | Inr prev_high \<Rightarrow>
              (case py_min (map c_low reference) of
                 Inl e \<Rightarrow> Inl e
               | Inr prev_low \<Rightarrow>
                  if c_close trigger > prev_high then
                    Inr (Some (build_plan config va_id symbol trigger reference BUY))
                  else if c_close trigger < prev_low then
                    Inr (Some (build_plan config va_id symbol trigger reference SELL))
                  else Inr None)))"


section \<open>Risk manager (\<^verbatim>\<open>strategy_risk_engine/risk.py\<close>)\<close>

record risk_config =
  max_daily_loss :: real
  max_drawdown_pct :: real
  max_trades_per_day :: int
  risk_per_trade_pct :: real
  default_leverage :: real
  max_leverage :: real
  daily_reset_hour_utc :: int
  max_symbol_exposure_pct_real_equity :: real
  cfg_market_constraints :: market_constraints

text \<open>
  \<^verbatim>\<open>VaState.day_id\<close> is the ISO string of a date; it is only ever compared for
  equality, so the model keeps the date as its day number since 1970-01-01.
\<close>

record va_state =
  virtual_equity :: real
  peak_virtual_equity :: real
  daily_pnl :: real
  daily_trades :: int
  day_id :: "int option"
  consecutive_losses :: int
  kill_switch :: bool

text \<open>
  The object's dictionaries.  \<^verbatim>\<open>_positions\<close> is summed over, so it is an association
  list in insertion order, as a Python \<^verbatim>\<open>dict\<close> is; the others are only looked up.
\<close>

record risk_manager =
  config :: risk_config
  real_equity :: real
  rm_va :: "string \<rightharpoonup> va_state"
  rm_positions :: "((string \<times> string) \<times> position) list"
  rm_symbol_owner :: "string \<rightharpoonup> string"
  rm_blocked_until :: "(string \<times> string) \<rightharpoonup> datetime"

definition new_risk_manager :: "risk_config \<Rightarrow> real \<Rightarrow> risk_manager" where
  "new_risk_manager cfg equity =
     \<lparr>config = cfg, real_equity = equity, rm_va = Map.empty, rm_positions = [],
      rm_symbol_owner = Map.empty, rm_blocked_until = Map.empty\<rparr>"

text \<open>\<^verbatim>\<open>self._sizer\<close>, built from the configuration by \<^verbatim>\<open>__init__\<close>.\<close>

definition sizer :: "risk_manager \<Rightarrow> size_calculator" where
  "sizer rm =
     \<lparr>sc_risk_per_trade_pct = risk_per_trade_pct (config rm),
      sc_default_leverage = default_leverage (config rm),
      sc_max_leverage = max_leverage (config rm),
      sc_market_constraints = cfg_market_constraints (config rm)\<rparr>"

definition register_va :: "risk_manager \<Rightarrow> string \<Rightarrow> real \<Rightarrow> risk_manager" where
  "register_va rm va_id equity =
     rm\<lparr>rm_va := (rm_va rm)(va_id \<mapsto>
          \<lparr>virtual_equity = equity, peak_virtual_equity = equity, daily_pnl = 0,
           daily_trades = 0, day_id = None, consecutive_losses = 0, kill_switch = False\<rparr>)\<rparr>"

definition apply_governor_breach ::
  "risk_manager \<Rightarrow> string \<Rightarrow> string \<Rightarrow> datetime \<Rightarrow> timedelta \<Rightarrow> risk_manager" where
  "apply_governor_breach rm va_id symbol now cooldown =
     rm\<lparr>rm_blocked_until := (rm_blocked_until rm)((va_id, symbol) \<mapsto> now + cooldown)\<rparr>"

text \<open>\<^verbatim>\<open>_day_id\<close> of the instant \<^verbatim>\<open>now.astimezone(timezone.utc)\<close>.\<close>

definition day_id_of :: "risk_config \<Rightarrow> datetime \<Rightarrow> int" where
  "day_id_of cfg now =
     (let shift = td_hours (daily_reset_hour_utc cfg);
          shifted = now - shift
      in shifted div microseconds_per_day)"

definition roll_day :: "risk_config \<Rightarrow> va_state \<Rightarrow> datetime \<Rightarrow> va_state" where
  "roll_day cfg st now =
     (let d = day_id_of cfg now in
      case day_id st of
        None \<Rightarrow> st\<lparr>day_id := Some d\<rparr>
      | Some stored \<Rightarrow>
          if d \<noteq> stored then st\<lparr>day_id := Some d, daily_pnl := 0, daily_trades := 0\<rparr>
          else st)"

text \<open>
  The body of \<^verbatim>\<open>record_trade_pnl\<close> on the state object of the account, in float
  arithmetic: \<^verbatim>\<open>dd = 1.0 - (st.virtual_equity / st.peak_virtual_equity)\<close> is a rounded
  quotient subtracted from 1 and rounded again.
\<close>

definition apply_trade_pnl :: "risk_config \<Rightarrow> va_state \<Rightarrow> real \<Rightarrow> datetime \<Rightarrow> va_state" where
  "apply_trade_pnl cfg st0 pnl now =
     (let st = roll_day cfg st0 now;
          st = st\<lparr>virtual_equity := float_add (virtual_equity st) pnl\<rparr>;
          st = st\<lparr>daily_pnl := float_add (daily_pnl st) pnl\<rparr>;
          st = (if pnl < 0 then st\<lparr>consecutive_losses := consecutive_losses st + 1\<rparr>
                else st\<lparr>consecutive_losses := 0\<rparr>);
          st = st\<lparr>peak_virtual_equity := max (peak_virtual_equity st) (virtual_equity st)\<rparr>;
          st = (if peak_virtual_equity st > 0 then
                  (let dd = float_sub 1 (float_div (virtual_equity st) (peak_virtual_equity st)) in
                   if dd \<ge> max_drawdown_pct cfg then st\<lparr>kill_switch := True\<rparr> else st)
                else st)
      in if virtual_equity st \<le> 0 then st\<lparr>kill_switch := True\<rparr> else st)"

definition record_trade_pnl ::
  "risk_manager \<Rightarrow> string \<Rightarrow> string \<Rightarrow> real \<Rightarrow> datetime \<Rightarrow> (error + unit) \<times> risk_manager" where
  "record_trade_pnl rm va_id symbol pnl now =
     (case rm_va rm va_id of
        None \<Rightarrow> (Inl KeyError, rm)
      | Some st \<Rightarrow>
          (Inr (), rm\<lparr>rm_va := (rm_va rm)(va_id \<mapsto> apply_trade_pnl (config rm) st pnl now)\<rparr>))"

definition any_position_for_symbol :: "risk_manager \<Rightarrow> string \<Rightarrow> bool" where
  "any_position_for_symbol rm symbol =
     list_ex (\<lambda>pos. pos_symbol pos = symbol \<and> pos_qty pos \<noteq> 0) (map snd (rm_positions rm))"

definition record_position :: "risk_manager \<Rightarrow> string \<Rightarrow> string \<Rightarrow> real \<Rightarrow> real \<Rightarrow> risk_manager" where
  "record_position rm va_id symbol qty avg_entry_price =
     (let key = (va_id, symbol) in
      if qty = 0 then
        let rm1 = rm\<lparr>rm_positions := AList.delete key (rm_positions rm)\<rparr> in
        if rm_symbol_owner rm1 symbol = Some va_id \<and> \<not> any_position_for_symbol rm1 symbol
        then rm1\<lparr>rm_symbol_owner := (rm_symbol_owner rm1)(symbol := None)\<rparr>
        else rm1
      else
        rm\<lparr>rm_positions := AList.update key
               \<lparr>pos_va_id = va_id, pos_symbol = symbol, pos_qty = qty,
                pos_avg_entry_price = avg_entry_price\<rparr> (rm_positions rm),
           rm_symbol_owner := (rm_symbol_owner rm)(symbol \<mapsto> va_id)\<rparr>)"

definition would_breach_symbol_exposure_cap :: "risk_manager \<Rightarrow> string \<Rightarrow> real \<Rightarrow> bool" where
  "would_breach_symbol_exposure_cap rm symbol add_notional =
     (if max_symbol_exposure_pct_real_equity (config rm) \<le> 0 then True
      else
        let cap = real_equity rm * max_symbol_exposure_pct_real_equity (config rm) in
        if cap \<le> 0 then True
        else
          let existing = sum_list (map notional
                           (filter (\<lambda>pos. pos_symbol pos = symbol) (map snd (rm_positions rm))))
          in existing + add_notional > cap)"

definition rejected :: "string \<Rightarrow> review_result" where
  "rejected r = \<lparr>approved = False, reason = Some r, rr_qty = None\<rparr>"

text \<open>
  \<^verbatim>\<open>review_orderplan\<close> in three parts, in the order of the source: the lookup of the
  account and \<^verbatim>\<open>_roll_day\<close>; the chain of checks (lines 105 to 141 and the result of
  line 147), which only reads the manager; and the reservation of lines 143 to 145,
  which runs on the approving path alone.
\<close>

definition review_decision ::
  "risk_manager \<Rightarrow> va_state \<Rightarrow> order_plan \<Rightarrow> datetime \<Rightarrow> error + review_result" where
  "review_decision rm st plan now =
     (if kill_switch st then Inr (rejected ''kill_switch'')
      else
        (case plan_stop_loss plan of
           None \<Rightarrow> Inr (rejected ''stop_loss_required'')
         | Some sl \<Rightarrow>
            if sl_kind sl = Fixed \<and> plan_take_profit plan = None then
              Inr (rejected ''take_profit_required_for_fixed'')
            else if (case rm_blocked_until rm (plan_va_id plan, plan_symbol plan) of
                       None \<Rightarrow> False | Some blocked \<Rightarrow> now < blocked) then
              Inr (rejected ''cooldown_active'')
            else if max_daily_loss (config rm) > 0
                    \<and> - daily_pnl st \<ge> max_daily_loss (config rm) then
              Inr (rejected ''max_daily_loss'')
            else if daily_trades st \<ge> max_trades_per_day (config rm) then
              Inr (rejected ''max_trades_per_day'')
            else if (case rm_symbol_owner rm (plan_symbol plan) of
                       None \<Rightarrow> False | Some owner \<Rightarrow> owner \<noteq> plan_va_id plan) then
              Inr (rejected ''symbol_owned_by_other_va'')
            else if (case map_of (rm_positions rm) (plan_va_id plan, plan_symbol plan) of
                       None \<Rightarrow> False
                     | Some existing_pos \<Rightarrow>
                        (case pos_side existing_pos of
                           None \<Rightarrow> False | Some s \<Rightarrow> s \<noteq> plan_side plan)) then
              Inr (rejected ''opposing_exposure_not_allowed'')
            else
              (case calculate_qty (sizer rm) plan (virtual_equity st)
                      (consecutive_losses st) None of
                 Inl e \<Rightarrow> Inl e
               | Inr sz \<Rightarrow>
                  if size_qty sz = 0 then
                    Inr \<lparr>approved = False, reason = size_reason sz, rr_qty = None\<rparr>
                  else if would_breach_symbol_exposure_cap rm (plan_symbol plan)
                            (\<bar>size_qty sz\<bar> * plan_entry_price plan) then
                    Inr (rejected ''net_exposure_cap'')
                  else Inr \<lparr>approved = True, reason = None, rr_qty = Some (size_qty sz)\<rparr>)))"

text \<open>
  \<^verbatim>\<open>st.daily_trades += 1\<close> and
  \<^verbatim>\<open>self._symbol_owner.setdefault(plan.symbol, plan.va_id)\<close>.
\<close>

definition reserve_trade :: "risk_manager \<Rightarrow> va_state \<Rightarrow> order_plan \<Rightarrow> risk_manager" where
  "reserve_trade rm st plan =
     rm\<lparr>rm_va := (rm_va rm)(plan_va_id plan \<mapsto> st\<lparr>daily_trades := daily_trades st + 1\<rparr>),
        rm_symbol_owner :=
          (case rm_symbol_owner rm (plan_symbol plan) of
             None \<Rightarrow> (rm_symbol_owner rm)(plan_symbol plan \<mapsto> plan_va_id plan)
           | Some owner \<Rightarrow> rm_symbol_owner rm)\<rparr>"

text \<open>
  \<^verbatim>\<open>_roll_day\<close> has mutated the account's state before any check runs, also when
  the call later raises, so the manager is returned in every case.
\<close>

definition review_orderplan ::
  "risk_manager \<Rightarrow> order_plan \<Rightarrow> datetime \<Rightarrow> bool \<Rightarrow> (error + review_result) \<times> risk_manager" where
  "review_orderplan rm plan now reserve =
     (case rm_va rm (plan_va_id plan) of
        None \<Rightarrow> (Inl KeyError, rm)
      | Some st0 \<Rightarrow>
          let st = roll_day (config rm) st0 now;
              rm1 = rm\<lparr>rm_va := (rm_va rm)(plan_va_id plan \<mapsto> st)\<rparr>
          in
          (case review_decision rm1 st plan now of
             Inl e \<Rightarrow> (Inl e, rm1)
           | Inr res \<Rightarrow>
              if approved res \<and> reserve then (Inr res, reserve_trade rm1 st plan)
              else (Inr res, rm1)))"

text \<open>
  The public calls of the manager, and the state a sequence of them leaves.  A call
  that raises leaves the state it had reached.
\<close>

datatype call =
    RegisterVa string real
  | ApplyGovernorBreach string string datetime timedelta
  | RecordTradePnl string string real datetime
  | RecordPosition string string real real
  | ReviewOrderplan order_plan datetime bool

fun step :: "risk_manager \<Rightarrow> call \<Rightarrow> risk_manager" where
  "step rm (RegisterVa va_id equity) = register_va rm va_id equity"
| "step rm (ApplyGovernorBreach va_id symbol now cooldown) =
     apply_governor_breach rm va_id symbol now cooldown"
| "step rm (RecordTradePnl va_id symbol pnl now) = snd (record_trade_pnl rm va_id symbol pnl now)"
| "step rm (RecordPosition va_id symbol qty avg) = record_position rm va_id symbol qty avg"
| "step rm (ReviewOrderplan plan now reserve) = snd (review_orderplan rm plan now reserve)"

definition run :: "risk_manager \<Rightarrow> call list \<Rightarrow> risk_manager" where
  "run rm calls = foldl step rm calls"


section \<open>Stop-loss test of the order manager (\<^verbatim>\<open>src/execution/order_manager.py\<close>)\<close>

text \<open>The \<^verbatim>\<open>Position\<close> model of \<^verbatim>\<open>src/storage/models.py\<close>.\<close>

record om_position =
  omp_id :: "int option"
  omp_va_id :: string
  omp_symbol :: string
  quantity :: real
  entry_price :: real
  current_price :: real
  unrealized_pnl :: real
  realized_pnl :: real
  stop_loss_price :: "real option"
  opened_at :: datetime
  updated_at :: datetime

text \<open>
  \<^verbatim>\<open>not position.stop_loss_price\<close> is true for \<^verbatim>\<open>None\<close> and for \<^verbatim>\<open>0.0\<close>.
\<close>

definition check_stop_loss :: "om_position \<Rightarrow> real \<Rightarrow> bool" where
  "check_stop_loss p price =
     (case stop_loss_price p of
        None \<Rightarrow> False
      | Some sl \<Rightarrow>
          if sl = 0 then False
          else if quantity p > 0 \<and> price \<le> sl then True
          else if quantity p < 0 \<and> price \<ge> sl then True
          else False)"


section \<open>Position reconciler (\<^verbatim>\<open>reconciliation/reconciler.py\<close>)\<close>

record exchange_order =
  xo_order_id :: string
  xo_client_order_id :: string
  xo_symbol :: string
  xo_side :: string
  xo_order_type :: string
  xo_price :: real
  xo_qty :: real
  xo_reduce_only :: bool
  xo_status :: string
  xo_filled_qty :: real

record exchange_position =
  xp_symbol :: string
  xp_side :: string
  xp_qty :: real
  xp_avg_entry_price :: real
  xp_mark_price :: real
  xp_unrealized_pnl :: real
  xp_leverage :: real
  xp_stop_loss_price :: "real option"
  xp_take_profit_price :: "real option"

text \<open>
  The exchange behind \<^verbatim>\<open>BybitClient\<close>: what each request answers.  A request
  that fails raises; \<^verbatim>\<open>attach_stop_loss\<close> catches the failure itself and answers
  \<^verbatim>\<open>False\<close>.
\<close>

record exchange =
  ex_get_positions :: "error + exchange_position list"
  ex_get_open_orders :: "string \<Rightarrow> error + exchange_order list"
  ex_attach_stop_loss :: "string \<Rightarrow> string \<Rightarrow> real \<Rightarrow> bool"
  ex_create_order :: "string \<Rightarrow> string \<Rightarrow> real \<Rightarrow> error + string"

text \<open>
  \<^verbatim>\<open>BybitClient.panic_close_position\<close>: a market reduce-only order on the opposite
  side; the order it returns carries the order id the exchange answered.
\<close>

definition panic_close_position :: "exchange \<Rightarrow> string \<Rightarrow> string \<Rightarrow> real \<Rightarrow> error + exchange_order" where
  "panic_close_position ex symbol sd qty =
     (let opposite_side = (if sd = ''Buy'' then ''Sell'' else ''Buy'') in
      case ex_create_order ex symbol opposite_side qty of
        Inl e \<Rightarrow> Inl e
      | Inr order_id \<Rightarrow>
          Inr \<lparr>xo_order_id = order_id, xo_client_order_id = order_id, xo_symbol = symbol,
               xo_side = opposite_side, xo_order_type = ''Market'', xo_price = 0, xo_qty = qty,
               xo_reduce_only = True, xo_status = ''New'', xo_filled_qty = 0\<rparr>)"

text \<open>The rows of \<^verbatim>\<open>PositionRecord\<close> and \<^verbatim>\<open>IncidentRecord\<close> the reconciler reads and writes.\<close>

record position_record =
  pr_id :: string
  pr_va_id :: string
  pr_symbol :: string
  pr_qty :: real
  pr_avg_entry_price :: real

text \<open>
  An incident as \<^verbatim>\<open>create_incident\<close> stores it, without its random id and its
  formatted description.  The metadata dictionary is kept by its keys.
\<close>

record incident =
  incident_type :: string
  inc_severity :: string
  inc_symbol :: "string option"
  inc_order_id :: "string option"
  inc_close_order_id :: "string option"
  inc_position_qty :: "real option"
  inc_position_side :: "string option"

text \<open>What a reconcile pass does to the outside: requests that act, and incidents.\<close>

datatype client_call =
    AttachStopLoss string string real
  | PanicClosePosition string string real

record recon_state =
  db_positions :: "position_record list"
  db_incidents :: "incident list"
  client_calls :: "client_call list"

definition get_position :: "recon_state \<Rightarrow> string \<Rightarrow> string \<Rightarrow> position_record option" where
  "get_position db va_id symbol =
     find (\<lambda>r. pr_va_id r = va_id \<and> pr_symbol r = symbol) (db_positions db)"

definition create_incident :: "recon_state \<Rightarrow> incident \<Rightarrow> recon_state" where
  "create_incident db inc = db\<lparr>db_incidents := db_incidents db @ [inc]\<rparr>"

definition panic_close :: "exchange \<Rightarrow> recon_state \<Rightarrow> exchange_position \<Rightarrow> recon_state" where
  "panic_close ex db pos =
     (let db1 = db\<lparr>client_calls := client_calls db
                     @ [PanicClosePosition (xp_symbol pos) (xp_side pos) (xp_qty pos)]\<rparr> in
      case panic_close_position ex (xp_symbol pos) (xp_side pos) (xp_qty pos) of
        Inr close_order \<Rightarrow>
          create_incident db1
            \<lparr>incident_type = ''panic_close'', inc_severity = ''high'',
             inc_symbol = Some (xp_symbol pos), inc_order_id = Some (xo_order_id close_order),
             inc_close_order_id = Some (xo_order_id close_order),
             inc_position_qty = Some (xp_qty pos), inc_position_side = Some (xp_side pos)\<rparr>
      | Inl e \<Rightarrow>
          create_incident db1
            \<lparr>incident_type = ''panic_close_failed'', inc_severity = ''critical'',
             inc_symbol = Some (xp_symbol pos), inc_order_id = None,
             inc_close_order_id = None, inc_position_qty = None, inc_position_side = None\<rparr>)"

definition enforce_sl_attachment :: "exchange \<Rightarrow> recon_state \<Rightarrow> exchange_position \<Rightarrow> recon_state" where
  "enforce_sl_attachment ex db pos =
     (case ex_get_open_orders ex (xp_symbol pos) of
        Inl e \<Rightarrow> panic_close ex db pos
      | Inr orders \<Rightarrow>
          let entry_orders = filter (\<lambda>od. \<not> xo_reduce_only od
                                \<and> xo_status od \<in> set [''New'', ''PartiallyFilled'']) orders in
          (case entry_orders of
             [] \<Rightarrow> panic_close ex db pos
           | entry_order # _ \<Rightarrow>
              let sl_p = (if xp_side pos = ''Buy'' then xo_price entry_order * 0.98
                          else xo_price entry_order * 1.02);
                  db1 = db\<lparr>client_calls := client_calls db
                          @ [AttachStopLoss (xp_symbol pos) (xo_order_id entry_order) sl_p]\<rparr>
              in
              if ex_attach_stop_loss ex (xp_symbol pos) (xo_order_id entry_order) sl_p then db1
              else panic_close ex db1 pos))"

text \<open>The body of the loop of \<^verbatim>\<open>reconcile_positions\<close>, and the loop.\<close>

definition reconcile_position :: "exchange \<Rightarrow> recon_state \<Rightarrow> exchange_position \<Rightarrow> recon_state" where
  "reconcile_position ex db xch_pos =
     (case get_position db ''unknown'' (xp_symbol xch_pos) of
        None \<Rightarrow> db
      | Some va_pos \<Rightarrow>
          if xp_stop_loss_price xch_pos = None then enforce_sl_attachment ex db xch_pos
          else db)"

definition reconcile_positions :: "exchange \<Rightarrow> recon_state \<Rightarrow> (error + unit) \<times> recon_state" where
  "reconcile_positions ex db =
     (case ex_get_positions ex of
        Inl e \<Rightarrow> (Inl e, db)
      | Inr exchange_positions \<Rightarrow> (Inr (), foldl (reconcile_position ex) db exchange_positions))"


section \<open>The checks of a review, as the specification lists them\<close>

text \<open>
  The specification of the risk manager lists the checks of a review in order, each
  with its reason; the first failure wins.  A list of checks is a list of pairs (the
  check fails, its reason); \<open>first_failing\<close> is the reason of the first one that fails.
\<close>

fun first_failing :: "(bool \<times> 'a) list \<Rightarrow> 'a option" where
  "first_failing [] = None"
| "first_failing ((fails, r) # checks) = (if fails then Some r else first_failing checks)"

text \<open>
  Checks 1 to 8 of the specification, on the manager and the account's state as they
  are once the day has been rolled.
\<close>

definition pre_sizing_checks ::
  "risk_manager \<Rightarrow> va_state \<Rightarrow> order_plan \<Rightarrow> datetime \<Rightarrow> (bool \<times> string) list" where
  "pre_sizing_checks rm st plan now =
     [(kill_switch st, ''kill_switch''),
      (plan_stop_loss plan = None, ''stop_loss_required''),
      ((case plan_stop_loss plan of None \<Rightarrow> False | Some sl \<Rightarrow> sl_kind sl = Fixed)
         \<and> plan_take_profit plan = None, ''take_profit_required_for_fixed''),
      ((case rm_blocked_until rm (plan_va_id plan, plan_symbol plan) of
          None \<Rightarrow> False | Some blocked \<Rightarrow> blocked > now), ''cooldown_active''),
      (max_daily_loss (config rm) > 0 \<and> - daily_pnl st \<ge> max_daily_loss (config rm),
         ''max_daily_loss''),
      (daily_trades st \<ge> max_trades_per_day (config rm), ''max_trades_per_day''),
      ((case rm_symbol_owner rm (plan_symbol plan) of
          None \<Rightarrow> False | Some owner \<Rightarrow> owner \<noteq> plan_va_id plan), ''symbol_owned_by_other_va''),
      ((case map_of (rm_positions rm) (plan_va_id plan, plan_symbol plan) of
          None \<Rightarrow> False
        | Some pos \<Rightarrow> pos_side pos \<noteq> None \<and> pos_side pos \<noteq> Some (plan_side plan)),
         ''opposing_exposure_not_allowed'')]"

text \<open>
  Checks 9 and 10, on the sizer's result: the rejection of check 9 carries the sizer's
  own reason, which is optional.
\<close>

definition sizing_checks ::
  "risk_manager \<Rightarrow> order_plan \<Rightarrow> size_result \<Rightarrow> (bool \<times> string option) list" where
  "sizing_checks rm plan sz =
     [(size_qty sz = 0, size_reason sz),
      (would_breach_symbol_exposure_cap rm (plan_symbol plan)
         (\<bar>size_qty sz\<bar> * plan_entry_price plan), Some ''net_exposure_cap'')]"

text \<open>The manager with the day of one account rolled, as a review sees it.\<close>

definition rolled :: "risk_manager \<Rightarrow> string \<Rightarrow> datetime \<Rightarrow> risk_manager" where
  "rolled rm va_id now =
     (case rm_va rm va_id of
        None \<Rightarrow> rm
      | Some st \<Rightarrow> rm\<lparr>rm_va := (rm_va rm)(va_id \<mapsto> roll_day (config rm) st now)\<rparr>)"

text \<open>Every position of the map is filed under its own account and symbol and is not flat.\<close>

definition positions_wf :: "((string \<times> string) \<times> position) list \<Rightarrow> bool" where
  "positions_wf ps =
     list_all (\<lambda>(k, p). pos_va_id p = fst k \<and> pos_symbol p = snd k \<and> pos_qty p \<noteq> 0) ps"


section \<open>The kill-switch invariant\<close>

text \<open>A registration with a positive virtual equity; every other call qualifies.\<close>

fun positive_registration :: "call \<Rightarrow> bool" where
  "positive_registration (RegisterVa va_id equity) = (equity > 0)"
| "positive_registration c = True"

text \<open>
  The drawdown of a state as \<^verbatim>\<open>record_trade_pnl\<close> computes it:
  \<^verbatim>\<open>1.0 - (st.virtual_equity / st.peak_virtual_equity)\<close> in floats.
\<close>

definition float_drawdown :: "va_state \<Rightarrow> real" where
  "float_drawdown st = float_sub 1 (float_div (virtual_equity st) (peak_virtual_equity st))"

text \<open>
  The kill switch of a state is latched where the invariant asks for it: when the
  virtual equity is not positive, and when the peak is positive and that drawdown
  has reached \<^verbatim>\<open>max_drawdown_pct\<close>.
\<close>

definition kill_switch_latched :: "risk_config \<Rightarrow> va_state \<Rightarrow> bool" where
  "kill_switch_latched cfg st =
     (if virtual_equity st \<le> 0 then kill_switch st
      else if peak_virtual_equity st > 0 \<and> float_drawdown st \<ge> max_drawdown_pct cfg
      then kill_switch st else True)"

definition all_latched :: "risk_manager \<Rightarrow> bool" where
  "all_latched rm = (\<forall>v st. rm_va rm v = Some st \<longrightarrow> kill_switch_latched (config rm) st)"


section \<open>Inputs of the scenarios\<close>

text \<open>\<^verbatim>\<open>RiskConfig()\<close> with \<^verbatim>\<open>MarketConstraints(min_qty=0.0, min_notional=0.0)\<close>.\<close>

definition default_risk_config :: risk_config where
  "default_risk_config =
     \<lparr>max_daily_loss = 0, max_drawdown_pct = 0.30, max_trades_per_day = 10,
      risk_per_trade_pct = 0.01, default_leverage = 3, max_leverage = 5,
      daily_reset_hour_utc = 0, max_symbol_exposure_pct_real_equity = 1,
      cfg_market_constraints = \<lparr>min_qty = 0, min_notional = 0\<rparr>\<rparr>"

text \<open>The plan of the tests: buy BTCUSDT at 100, fixed stop at 99, take profit at 102.\<close>

definition scenario_plan :: order_plan where
  "scenario_plan =
     \<lparr>plan_va_id = ''va1'', plan_symbol = ''BTCUSDT'', plan_side = BUY, plan_entry_type = MARKET,
      plan_entry_price = 100, plan_risk_tag = ''t'',
      plan_stop_loss = Some \<lparr>sl_kind = Fixed, sl_price = Some 99, sl_trail_by = None\<rparr>,
      plan_take_profit = Some \<lparr>tp_price = 102\<rparr>\<rparr>"

text \<open>The sizer of \<^verbatim>\<open>RiskManager(config=RiskConfig(...))\<close> in the size-decay scenario.\<close>

definition default_sizer :: size_calculator where
  "default_sizer =
     \<lparr>sc_risk_per_trade_pct = 0.01, sc_default_leverage = 3, sc_max_leverage = 5,
      sc_market_constraints = \<lparr>min_qty = 0, min_notional = 0\<rparr>\<rparr>"

text \<open>Scenario 4 (daily reset): one trade a day, reset at 00:00 UTC, one account of 1000.\<close>

definition scenario4_manager :: risk_manager where
  "scenario4_manager =
     register_va
       (new_risk_manager (default_risk_config\<lparr>max_trades_per_day := 1, daily_reset_hour_utc := 0\<rparr>)
          10000)
       ''va1'' 1000"

text \<open>A trailing stop without its distance: \<^verbatim>\<open>StopLossSpec(kind="trailing")\<close>.\<close>

definition trailing_plan_without_distance :: order_plan where
  "trailing_plan_without_distance =
     scenario_plan\<lparr>plan_stop_loss := Some \<lparr>sl_kind = Trailing, sl_price = None, sl_trail_by = None\<rparr>,
                   plan_take_profit := None\<rparr>"

text \<open>A manager whose sizer risks nothing per trade, and a plan at a negative price.\<close>

definition zero_risk_manager :: risk_manager where
  "zero_risk_manager =
     register_va (new_risk_manager (default_risk_config\<lparr>risk_per_trade_pct := 0\<rparr>) 10000)
       ''va1'' 1000"

definition negative_price_plan :: order_plan where
  "negative_price_plan =
     scenario_plan\<lparr>plan_entry_price := - 100,
                   plan_stop_loss := Some \<lparr>sl_kind = Fixed, sl_price = Some (- 99), sl_trail_by = None\<rparr>\<rparr>"

text \<open>The candles of the breakout scenario, built as the tests' \<^verbatim>\<open>_candle\<close> builds them.\<close>

definition candle_at :: "string \<Rightarrow> datetime \<Rightarrow> real \<Rightarrow> real \<Rightarrow> real \<Rightarrow> real \<Rightarrow> candle" where
  "candle_at symbol t op hi lo cl =
     \<lparr>c_symbol = symbol, c_open_time = t, c_close_time = t + td_minutes 5,
      c_open = op, c_high = hi, c_low = lo, c_close = cl\<rparr>"

definition scenario1_candles :: "string \<Rightarrow> datetime \<Rightarrow> candle list" where
  "scenario1_candles symbol t0 =
     [candle_at symbol (t0 + td_minutes 0) 100 101 99 100,
      candle_at symbol (t0 + td_minutes 5) 100 102 99 101,
      candle_at symbol (t0 + td_minutes 10) 101 103 100 102,
      candle_at symbol (t0 + td_minutes 15) 102 104 101 105]"

definition scenario1_config :: strategy_config where
  "scenario1_config =
     \<lparr>lookback_candles = 3, cfg_tp_mode = TpFixed, fixed_tp_r = 1.7, sl_range_mult = 1,
      min_stop_distance = 0, risk_tag = ''vol_breakout_5m_closed''\<rparr>"

text \<open>A long position whose stop-loss price is 0.\<close>

definition long_with_zero_stop :: om_position where
  "long_with_zero_stop =
     \<lparr>omp_id = None, omp_va_id = ''va1'', omp_symbol = ''BTCUSDT'', quantity = 1,
      entry_price = 100, current_price = 0, unrealized_pnl = 0, realized_pnl = 0,
      stop_loss_price = Some 0, opened_at = 0, updated_at = 0\<rparr>"

definition long_with_stop_99 :: om_position where
  "long_with_stop_99 = long_with_zero_stop\<lparr>stop_loss_price := Some 99\<rparr>"

text \<open>
  Scenario 7: the exchange reports one BTCUSDT position, Buy 1.0, without a stop-loss,
  and no open order; the close order it creates gets the id \<^verbatim>\<open>close-1\<close>.
\<close>

definition scenario7_exchange :: exchange where
  "scenario7_exchange =
     \<lparr>ex_get_positions = Inr [\<lparr>xp_symbol = ''BTCUSDT'', xp_side = ''Buy'', xp_qty = 1,
                               xp_avg_entry_price = 100, xp_mark_price = 100,
                               xp_unrealized_pnl = 0, xp_leverage = 1,
                               xp_stop_loss_price = None, xp_take_profit_price = None\<rparr>],
      ex_get_open_orders = (\<lambda>symbol. Inr []),
      ex_attach_stop_loss = (\<lambda>symbol order_id stop_price. False),
      ex_create_order = (\<lambda>symbol sd qty. Inr ''close-1'')\<rparr>"

text \<open>The local database holding that position for the account that owns it.\<close>

definition scenario7_db :: "string \<Rightarrow> recon_state" where
  "scenario7_db owner =
     \<lparr>db_positions = [\<lparr>pr_id = ''pos1'', pr_va_id = owner, pr_symbol = ''BTCUSDT'',
                       pr_qty = 1, pr_avg_entry_price = 100\<rparr>],
      db_incidents = [], client_calls = []\<rparr>"


text \<open>A manager with the default configuration and one account of 1000.\<close>

definition default_manager :: risk_manager where
  "default_manager = register_va (new_risk_manager default_risk_config 10000) ''va1'' 1000"

text \<open>Scenario 5: \<^verbatim>\<open>va1\<close> holds BTCUSDT, and \<^verbatim>\<open>va2\<close> plans to buy it.\<close>

definition scenario5_manager :: risk_manager where
  "scenario5_manager =
     record_position (register_va default_manager ''va2'' 1000) ''va1'' ''BTCUSDT'' 1 100"

definition noon :: datetime where
  "noon = datetime_utc 2025 1 1 12 0"

text \<open>
  \<^verbatim>\<open>RiskConfig(max_drawdown_pct=0.09)\<close>: the limit is the double nearest to 0.09, which
  lies below 9/100.
\<close>

definition drawdown_limit_config :: risk_config where
  "drawdown_limit_config = default_risk_config\<lparr>max_drawdown_pct := round_double (9 / 100)\<rparr>"

section \<open>Sizer: loss decay\<close>

text \<open>
  Claim C5.  For every count \<open>c\<close> of consecutive losses the decay factor of the sizer is
  1 if \<open>c < 2\<close>, 0.5 if \<open>2 \<le> c < 4\<close> and 0.25 if \<open>c \<ge> 4\<close>; and once the sizer is past
  its guards (positive equity, positive effective leverage, a stop price at a
  non-zero distance, a non-zero entry price), the quantity that the \<^verbatim>\<open>min_qty\<close> and
  \<^verbatim>\<open>min_notional\<close> rejections test, and that is returned signed, is
  \<open>min raw_qty qty_cap\<close> multiplied by that factor.
\<close>

theorem loss_decay_applied_before_min_checks:
  assumes "equity > 0"
    and "lev = min (case leverage of None \<Rightarrow> sc_default_leverage sc | Some l \<Rightarrow> l) (sc_max_leverage sc)"
    and "lev > 0"
    and "plan_stop_loss plan = Some sl"
    and "resolved_stop_price sl (plan_entry_price plan) (plan_side plan) = Inr resolved_sl"
    and "\<bar>plan_entry_price plan - resolved_sl\<bar> > 0"
    and "plan_entry_price plan \<noteq> 0"
    and "raw_qty = equity * sc_risk_per_trade_pct sc / \<bar>plan_entry_price plan - resolved_sl\<bar>"
    and "qty_cap = equity * lev / plan_entry_price plan"
    and "qty = min raw_qty qty_cap * loss_decay c"
  shows "loss_decay c = (if c < 2 then 1 else if c < 4 then 0.5 else 0.25) \<and>
         calculate_qty sc plan equity c leverage =
          (if qty < min_qty (sc_market_constraints sc) then
             Inr \<lparr>size_qty = 0, size_reason = Some ''below_min_qty''\<rparr>
           else if qty * plan_entry_price plan < min_notional (sc_market_constraints sc) then
             Inr \<lparr>size_qty = 0, size_reason = Some ''below_min_notional''\<rparr>
           else Inr \<lparr>size_qty = (if plan_side plan = SELL then - qty else qty), size_reason = None\<rparr>)"
proof
  show "loss_decay c = (if c < 2 then 1 else if c < 4 then 0.5 else 0.25)"
    by (simp add: loss_decay_def)
next
  show "calculate_qty sc plan equity c leverage =
          (if qty < min_qty (sc_market_constraints sc) then
             Inr \<lparr>size_qty = 0, size_reason = Some ''below_min_qty''\<rparr>
           else if qty * plan_entry_price plan < min_notional (sc_market_constraints sc) then
             Inr \<lparr>size_qty = 0, size_reason = Some ''below_min_notional''\<rparr>
           else Inr \<lparr>size_qty = (if plan_side plan = SELL then - qty else qty), size_reason = None\<rparr>)"
    using assms unfolding calculate_qty_def Let_def
    by (simp add: not_le)
qed

text \<open>
  The size-decay scenario after two losses: equity 998, two consecutive losses, entry
  100 and stop 99 give 998 \<times> 0.01 \<times> 0.5 = 4.99.
\<close>

theorem loss_decay_applied_witness:
  "loss_decay 2 = 0.5 \<and>
   calculate_qty default_sizer scenario_plan 998 2 None = Inr \<lparr>size_qty = 4.99, size_reason = None\<rparr>"
  using loss_decay_applied_before_min_checks [where equity = 998 and lev = 3 and leverage = None
      and sc = default_sizer and plan = scenario_plan
      and sl = "\<lparr>sl_kind = Fixed, sl_price = Some 99, sl_trail_by = None\<rparr>"
      and resolved_sl = 99 and raw_qty = "9.98" and qty_cap = "29.94" and qty = "4.99" and c = 2]
  by (simp add: default_sizer_def scenario_plan_def resolved_stop_price_def loss_decay_def)


section \<open>Order manager: stop-loss trigger\<close>

text \<open>
  Claim C8, as stated, at a long position whose stop-loss price is 0 and the price 0:
  the price is at the stop, and \<^verbatim>\<open>check_stop_loss\<close> answers \<^verbatim>\<open>False\<close>.
\<close>

theorem check_stop_loss_zero_stop_counterexample:
  "quantity long_with_zero_stop > 0 \<and> stop_loss_price long_with_zero_stop = Some 0
   \<and> (0::real) \<le> 0 \<and> \<not> check_stop_loss long_with_zero_stop 0"
  by (simp add: long_with_zero_stop_def check_stop_loss_def)

text \<open>
  Claim C8, amended.  For every position whose stop-loss price is set and is not 0:
  if its quantity is positive, \<^verbatim>\<open>check_stop_loss\<close> is true exactly when the price is
  at or below the stop; if its quantity is negative, exactly when the price is at or
  above the stop.  For a position whose stop-loss price is \<^verbatim>\<open>None\<close> or 0 it is false.
\<close>

theorem check_stop_loss_iff:
  "(stop_loss_price p = Some sl \<and> sl \<noteq> 0 \<longrightarrow>
      (quantity p > 0 \<longrightarrow> (check_stop_loss p x \<longleftrightarrow> x \<le> sl)) \<and>
      (quantity p < 0 \<longrightarrow> (check_stop_loss p x \<longleftrightarrow> x \<ge> sl))) \<and>
   (stop_loss_price p = None \<or> stop_loss_price p = Some 0 \<longrightarrow> \<not> check_stop_loss p x)"
  by (auto simp: check_stop_loss_def)

theorem check_stop_loss_iff_witness:
  "check_stop_loss long_with_stop_99 98 \<and> \<not> check_stop_loss long_with_stop_99 100
   \<and> check_stop_loss (long_with_stop_99\<lparr>quantity := - 1\<rparr>) 100
   \<and> \<not> check_stop_loss (long_with_stop_99\<lparr>quantity := - 1\<rparr>) 98
   \<and> \<not> check_stop_loss (long_with_stop_99\<lparr>stop_loss_price := None\<rparr>) 98"
  using check_stop_loss_iff [of long_with_stop_99 99 98]
    check_stop_loss_iff [of long_with_stop_99 99 100]
    check_stop_loss_iff [of "long_with_stop_99\<lparr>quantity := - 1\<rparr>" 99 100]
    check_stop_loss_iff [of "long_with_stop_99\<lparr>quantity := - 1\<rparr>" 99 98]
    check_stop_loss_iff [of "long_with_stop_99\<lparr>stop_loss_price := None\<rparr>" 0 98]
  by (simp add: long_with_stop_99_def long_with_zero_stop_def)


section \<open>Reconciler: panic-close on a missing stop-loss\<close>

text \<open>
  Claim C2.  In scenario 7 the exchange position has no stop-loss and no entry order
  is open.  When the local database files the position under the account that owns it
  (\<^verbatim>\<open>va1\<close>), the pass looks it up under the account \<^verbatim>\<open>unknown\<close>, finds nothing and
  skips the position: no request is sent and no incident is written.  Only when a
  local record is filed under the literal account \<^verbatim>\<open>unknown\<close> does the pass
  panic-close with the position's side and full quantity and record a
  \<^verbatim>\<open>panic_close\<close> incident with the close order's id.
\<close>

theorem reconcile_positions_skips_unattributed_position:
  "reconcile_positions scenario7_exchange (scenario7_db ''va1'') = (Inr (), scenario7_db ''va1'')
   \<and> client_calls (snd (reconcile_positions scenario7_exchange (scenario7_db ''va1''))) = []
   \<and> db_incidents (snd (reconcile_positions scenario7_exchange (scenario7_db ''va1''))) = []
   \<and> client_calls (snd (reconcile_positions scenario7_exchange (scenario7_db ''unknown'')))
       = [PanicClosePosition ''BTCUSDT'' ''Buy'' 1]
   \<and> map incident_type (db_incidents (snd (reconcile_positions scenario7_exchange (scenario7_db ''unknown''))))
       = [''panic_close'']
   \<and> map inc_order_id (db_incidents (snd (reconcile_positions scenario7_exchange (scenario7_db ''unknown''))))
       = [Some ''close-1'']"
  by (simp add: reconcile_positions_def reconcile_position_def scenario7_exchange_def
      scenario7_db_def get_position_def enforce_sl_attachment_def panic_close_def
      panic_close_position_def create_incident_def)


section \<open>Risk manager: the review\<close>

subsection \<open>Rolling the day, and the review as a decision on the rolled state\<close>

lemma roll_day_idem: "roll_day cfg (roll_day cfg st now) now = roll_day cfg st now"
  by (simp add: roll_day_def Let_def split: option.splits)

lemma review_orderplan_rolled:
  "review_orderplan (rolled rm (plan_va_id plan) now) plan now reserve
     = review_orderplan rm plan now reserve"
proof (cases "rm_va rm (plan_va_id plan)")
  case None
  then show ?thesis by (simp add: rolled_def)
next
  case (Some st0)
  then show ?thesis
    unfolding review_orderplan_def rolled_def Let_def
    by (simp add: roll_day_idem split: sum.splits)
qed

lemma fst_review_orderplan:
  "rm_va rm (plan_va_id plan) = Some st0 \<Longrightarrow>
   fst (review_orderplan rm plan now reserve)
     = review_decision (rolled rm (plan_va_id plan) now) (roll_day (config rm) st0 now) plan now"
  unfolding review_orderplan_def rolled_def Let_def
  by (simp split: sum.splits)

lemma case_first_failing_Cons:
  "(case first_failing ((c, r) # cs) of None \<Rightarrow> a | Some y \<Rightarrow> b y)
     = (if c then b r else (case first_failing cs of None \<Rightarrow> a | Some y \<Rightarrow> b y))"
  by simp

lemma opposing_side_iff:
  "(pos_side p \<noteq> None \<and> pos_side p \<noteq> Some sd)
     = (case pos_side p of None \<Rightarrow> False | Some s \<Rightarrow> s \<noteq> sd)"
  by (cases "pos_side p") auto

lemma review_decision_eq:
  "review_decision rm st plan now =
     (case first_failing (pre_sizing_checks rm st plan now) of
        Some r \<Rightarrow> Inr \<lparr>approved = False, reason = Some r, rr_qty = None\<rparr>
      | None \<Rightarrow>
         (case calculate_qty (sizer rm) plan (virtual_equity st) (consecutive_losses st) None of
            Inl e \<Rightarrow> Inl e
          | Inr sz \<Rightarrow>
             Inr (case first_failing (sizing_checks rm plan sz) of
                    Some r \<Rightarrow> \<lparr>approved = False, reason = r, rr_qty = None\<rparr>
                  | None \<Rightarrow> \<lparr>approved = True, reason = None, rr_qty = Some (size_qty sz)\<rparr>)))"
proof -
  have sizing: "\<And>sz. Inr (case first_failing (sizing_checks rm plan sz) of
                    Some r \<Rightarrow> \<lparr>approved = False, reason = r, rr_qty = None\<rparr>
                  | None \<Rightarrow> \<lparr>approved = True, reason = None, rr_qty = Some (size_qty sz)\<rparr>)
      = (if size_qty sz = 0 then
           Inr \<lparr>approved = False, reason = size_reason sz, rr_qty = None\<rparr>
         else if would_breach_symbol_exposure_cap rm (plan_symbol plan)
                   (\<bar>size_qty sz\<bar> * plan_entry_price plan) then
           Inr (rejected ''net_exposure_cap'')
         else (Inr \<lparr>approved = True, reason = None, rr_qty = Some (size_qty sz)\<rparr>
                 :: error + review_result))"
    by (simp add: sizing_checks_def rejected_def)
  show ?thesis
  proof (cases "plan_stop_loss plan")
    case None
    then show ?thesis
      by (simp add: review_decision_def pre_sizing_checks_def rejected_def)
  next
    case (Some sl)
    then show ?thesis
      unfolding review_decision_def pre_sizing_checks_def sizing
      by (simp only: case_first_failing_Cons first_failing.simps(1) option.case
          opposing_side_iff rejected_def option.distinct if_False)
  qed
qed

lemma sizer_rolled: "sizer (rolled rm va now) = sizer rm"
  by (simp add: sizer_def rolled_def split: option.splits)


lemma review_orderplan_no_reserve_state:
  "snd (review_orderplan rm plan now False) = rolled rm (plan_va_id plan) now"
  unfolding review_orderplan_def rolled_def Let_def
  by (simp split: option.splits sum.splits)

subsection \<open>Order of the checks\<close>

text \<open>
  Claim C1, as stated, at a plan whose trailing stop carries no distance
  (\<^verbatim>\<open>StopLossSpec(kind="trailing")\<close>) for a registered account: checks 1 to 8 pass, the
  sizer raises \<^verbatim>\<open>ValueError\<close>, and the review returns no result.
\<close>

theorem review_orderplan_raises_counterexample:
  "rm_va default_manager (plan_va_id trailing_plan_without_distance) \<noteq> None
   \<and> fst (review_orderplan default_manager trailing_plan_without_distance noon True)
       = Inl ValueError"
  by (simp add: default_manager_def trailing_plan_without_distance_def scenario_plan_def
      default_risk_config_def new_risk_manager_def register_va_def review_orderplan_def
      review_decision_def sizer_def calculate_qty_def resolved_stop_price_def roll_day_def
      Let_def)

text \<open>
  Claim C1, amended.  For every plan of a registered account and every instant, with
  the day rolled first: if one of the checks 1 to 8 fails, the review is rejected with
  the reason of the first that fails, in the order kill_switch, stop_loss_required,
  take_profit_required_for_fixed, cooldown_active, max_daily_loss, max_trades_per_day,
  symbol_owned_by_other_va, opposing_exposure_not_allowed.  If all eight pass, the
  sizer runs: if it raises, the review raises the same error; otherwise the review is
  rejected with the sizer's reason when the quantity is 0, else with net_exposure_cap
  when the cap would be breached, and else approved with the sized quantity.
\<close>

theorem review_orderplan_first_failing:
  assumes "rm_va rm (plan_va_id plan) = Some st0"
    and "st = roll_day (config rm) st0 now"
    and "rm1 = rolled rm (plan_va_id plan) now"
  shows "(\<forall>r. first_failing (pre_sizing_checks rm1 st plan now) = Some r \<longrightarrow>
            fst (review_orderplan rm plan now reserve)
              = Inr \<lparr>approved = False, reason = Some r, rr_qty = None\<rparr>)
       \<and> (first_failing (pre_sizing_checks rm1 st plan now) = None \<longrightarrow>
            (case calculate_qty (sizer rm) plan (virtual_equity st) (consecutive_losses st) None of
               Inl e \<Rightarrow> fst (review_orderplan rm plan now reserve) = Inl e
             | Inr sz \<Rightarrow>
                 fst (review_orderplan rm plan now reserve) =
                   Inr (case first_failing (sizing_checks rm1 plan sz) of
                          Some r \<Rightarrow> \<lparr>approved = False, reason = r, rr_qty = None\<rparr>
                        | None \<Rightarrow> \<lparr>approved = True, reason = None, rr_qty = Some (size_qty sz)\<rparr>)))"
proof -
  have d: "fst (review_orderplan rm plan now reserve) = review_decision rm1 st plan now"
    using assms by (simp add: fst_review_orderplan)
  have s: "sizer rm1 = sizer rm"
    using assms(3) by (simp add: sizer_rolled)
  show ?thesis
    unfolding d review_decision_eq [of rm1 st plan now] s
    by (simp split: sum.splits)
qed


text \<open>
  The default manager approves the plan of the tests with quantity 10, and scenario 5:
  the plan of \<^verbatim>\<open>va2\<close> on the symbol \<^verbatim>\<open>va1\<close> holds is rejected.
\<close>

theorem review_orderplan_first_failing_witness:
  "fst (review_orderplan default_manager scenario_plan noon True)
     = Inr \<lparr>approved = True, reason = None, rr_qty = Some 10\<rparr>
   \<and> fst (review_orderplan scenario5_manager (scenario_plan\<lparr>plan_va_id := ''va2''\<rparr>) noon False)
     = Inr \<lparr>approved = False, reason = Some ''symbol_owned_by_other_va'', rr_qty = None\<rparr>"
proof
  let ?st0 = "\<lparr>virtual_equity = 1000, peak_virtual_equity = 1000, daily_pnl = 0,
               daily_trades = 0, day_id = None, consecutive_losses = 0, kill_switch = False\<rparr>"
  show "fst (review_orderplan default_manager scenario_plan noon True)
     = Inr \<lparr>approved = True, reason = None, rr_qty = Some 10\<rparr>"
    using review_orderplan_first_failing [where rm = default_manager and plan = scenario_plan
        and now = noon and reserve = True and ?st0.0 = ?st0
        and st = "roll_day (config default_manager) ?st0 noon"
        and ?rm1.0 = "rolled default_manager (plan_va_id scenario_plan) noon"]
    by (simp add: default_manager_def scenario_plan_def default_risk_config_def
        new_risk_manager_def register_va_def rolled_def roll_day_def pre_sizing_checks_def
        sizing_checks_def sizer_def calculate_qty_def resolved_stop_price_def loss_decay_def
        would_breach_symbol_exposure_cap_def Let_def)
  show "fst (review_orderplan scenario5_manager (scenario_plan\<lparr>plan_va_id := ''va2''\<rparr>) noon False)
     = Inr \<lparr>approved = False, reason = Some ''symbol_owned_by_other_va'', rr_qty = None\<rparr>"
    using review_orderplan_first_failing [where rm = scenario5_manager
        and plan = "scenario_plan\<lparr>plan_va_id := ''va2''\<rparr>"
        and now = noon and reserve = False and ?st0.0 = ?st0
        and st = "roll_day (config scenario5_manager) ?st0 noon"
        and ?rm1.0 = "rolled scenario5_manager ''va2'' noon"]
    by (simp add: scenario5_manager_def default_manager_def scenario_plan_def
        default_risk_config_def new_risk_manager_def register_va_def record_position_def
        rolled_def roll_day_def pre_sizing_checks_def Let_def)
qed

subsection \<open>Idempotence without reservation\<close>

text \<open>
  Claim C9.  For every plan and every instant, a second review with
  \<^verbatim>\<open>reserve=False\<close> right after a first one gives the same outcome (the same
  result, or the same exception) and leaves the manager as the first one left it.
\<close>

theorem review_orderplan_idempotent:
  "fst (review_orderplan (snd (review_orderplan rm plan now False)) plan now False)
     = fst (review_orderplan rm plan now False)
   \<and> snd (review_orderplan (snd (review_orderplan rm plan now False)) plan now False)
     = snd (review_orderplan rm plan now False)"
  by (simp add: review_orderplan_no_reserve_state review_orderplan_rolled)


section \<open>Sizer: a rejection without a reason\<close>

lemma loss_decay_pos: "loss_decay c > 0"
  by (simp add: loss_decay_def)


text \<open>
  Claim C10, as stated, at a plan with a negative entry price (entry -100, fixed stop
  -99) for a sizer that risks nothing, with equity 1000 and leverage 3: the leverage
  cap is negative, so the quantity is below \<^verbatim>\<open>min_qty = 0\<close> and the rejection carries
  the reason \<^verbatim>\<open>below_min_qty\<close>.
\<close>

theorem zero_risk_negative_price_counterexample:
  "risk_per_trade_pct (config zero_risk_manager) = 0
   \<and> cfg_market_constraints (config zero_risk_manager) = \<lparr>min_qty = 0, min_notional = 0\<rparr>
   \<and> calculate_qty (sizer zero_risk_manager) negative_price_plan 1000 0 None
       = Inr \<lparr>size_qty = 0, size_reason = Some ''below_min_qty''\<rparr>
   \<and> fst (review_orderplan zero_risk_manager negative_price_plan noon False)
       = Inr \<lparr>approved = False, reason = Some ''below_min_qty'', rr_qty = None\<rparr>"
  by (simp add: zero_risk_manager_def negative_price_plan_def scenario_plan_def
      default_risk_config_def new_risk_manager_def register_va_def sizer_def
      calculate_qty_def resolved_stop_price_def loss_decay_def review_orderplan_def
      review_decision_def roll_day_def rejected_def Let_def)


text \<open>
  Claim C10, amended.  When \<^verbatim>\<open>risk_per_trade_pct\<close>, \<^verbatim>\<open>min_qty\<close> and \<^verbatim>\<open>min_notional\<close>
  are 0, for every plan with a positive entry price, positive equity, positive
  effective leverage and a stop price at a non-zero distance, \<^verbatim>\<open>calculate_qty\<close> returns
  quantity 0 with no reason; and a review of such a plan that passes checks 1 to 8 is
  rejected with the reason \<^verbatim>\<open>None\<close>.
\<close>

theorem zero_risk_rejection_without_reason:
  assumes "sc_risk_per_trade_pct sc = 0"
    and "min_qty (sc_market_constraints sc) = 0"
    and "min_notional (sc_market_constraints sc) = 0"
    and "equity > 0"
    and "min (case leverage of None \<Rightarrow> sc_default_leverage sc | Some l \<Rightarrow> l) (sc_max_leverage sc) > 0"
    and "plan_stop_loss plan = Some sl"
    and "resolved_stop_price sl (plan_entry_price plan) (plan_side plan) = Inr resolved_sl"
    and "plan_entry_price plan \<noteq> resolved_sl"
    and "plan_entry_price plan > 0"
  shows "calculate_qty sc plan equity c leverage = Inr \<lparr>size_qty = 0, size_reason = None\<rparr>
       \<and> (sc = sizer rm \<and> rm_va rm (plan_va_id plan) = Some st0
            \<and> equity = virtual_equity st0 \<and> c = consecutive_losses st0 \<and> leverage = None
            \<and> first_failing (pre_sizing_checks (rolled rm (plan_va_id plan) now)
                  (roll_day (config rm) st0 now) plan now) = None
          \<longrightarrow> fst (review_orderplan rm plan now reserve)
                = Inr \<lparr>approved = False, reason = None, rr_qty = None\<rparr>)"
proof -
  have cap: "equity * min (case leverage of None \<Rightarrow> sc_default_leverage sc | Some l \<Rightarrow> l)
                (sc_max_leverage sc) / plan_entry_price plan > 0"
    using assms(4,5,9) by simp
  have q: "calculate_qty sc plan equity c leverage = Inr \<lparr>size_qty = 0, size_reason = None\<rparr>"
    using assms cap loss_decay_pos [of c]
    unfolding calculate_qty_def Let_def
    by (simp add: not_le min_def)
  have rd: "virtual_equity (roll_day cfg st0 now) = virtual_equity st0
            \<and> consecutive_losses (roll_day cfg st0 now) = consecutive_losses st0" for cfg
    by (simp add: roll_day_def Let_def split: option.splits)
  show ?thesis
  proof (intro conjI impI)
    show "calculate_qty sc plan equity c leverage = Inr \<lparr>size_qty = 0, size_reason = None\<rparr>"
      by (rule q)
  next
    assume a: "sc = sizer rm \<and> rm_va rm (plan_va_id plan) = Some st0
            \<and> equity = virtual_equity st0 \<and> c = consecutive_losses st0 \<and> leverage = None
            \<and> first_failing (pre_sizing_checks (rolled rm (plan_va_id plan) now)
                  (roll_day (config rm) st0 now) plan now) = None"
    then have "review_decision (rolled rm (plan_va_id plan) now) (roll_day (config rm) st0 now) plan now
        = Inr \<lparr>approved = False, reason = None, rr_qty = None\<rparr>"
      using q by (simp add: review_decision_eq sizer_rolled rd sizing_checks_def)
    then show "fst (review_orderplan rm plan now reserve)
                = Inr \<lparr>approved = False, reason = None, rr_qty = None\<rparr>"
      using a by (simp add: fst_review_orderplan)
  qed
qed

theorem zero_risk_rejection_witness:
  "calculate_qty (sizer zero_risk_manager) scenario_plan 1000 0 None
     = Inr \<lparr>size_qty = 0, size_reason = None\<rparr>
   \<and> fst (review_orderplan zero_risk_manager scenario_plan noon True)
     = Inr \<lparr>approved = False, reason = None, rr_qty = None\<rparr>"
  using zero_risk_rejection_without_reason [where sc = "sizer zero_risk_manager"
      and equity = 1000 and leverage = None and plan = scenario_plan and c = 0
      and sl = "\<lparr>sl_kind = Fixed, sl_price = Some 99, sl_trail_by = None\<rparr>"
      and resolved_sl = 99 and rm = zero_risk_manager and now = noon and reserve = True
      and ?st0.0 = "\<lparr>virtual_equity = 1000, peak_virtual_equity = 1000, daily_pnl = 0,
               daily_trades = 0, day_id = None, consecutive_losses = 0, kill_switch = False\<rparr>"]
  by (simp add: zero_risk_manager_def scenario_plan_def default_risk_config_def
      new_risk_manager_def register_va_def sizer_def resolved_stop_price_def rolled_def
      roll_day_def pre_sizing_checks_def Let_def)


section \<open>Risk manager: rolling the day\<close>

text \<open>
  Claim C6.  The day of an instant is the UTC date of the instant moved back by
  \<^verbatim>\<open>daily_reset_hour_utc\<close> hours.  Rolling a state without a stored day stores the
  day and resets nothing; rolling a state whose stored day differs stores the day and
  sets \<^verbatim>\<open>daily_pnl\<close> and \<^verbatim>\<open>daily_trades\<close> to 0; rolling a state of the same day
  changes nothing.  A review decides on the rolled state: it is the review of the
  manager whose account has been rolled already.  In scenario 4 (one trade a day,
  reset at 00:00 UTC) the reserving review at 2025-01-01 23:59Z is approved, a second
  review in the same minute is rejected with \<^verbatim>\<open>max_trades_per_day\<close>, and a review at
  2025-01-02 00:01Z is approved, whatever the \<^verbatim>\<open>reserve\<close> flags of the last two.
\<close>

theorem roll_day_before_checks:
  "day_id_of cfg now = (now - td_hours (daily_reset_hour_utc cfg)) div microseconds_per_day
   \<and> (day_id st = None \<longrightarrow> roll_day cfg st now = st\<lparr>day_id := Some (day_id_of cfg now)\<rparr>)
   \<and> (day_id st = Some d \<and> d \<noteq> day_id_of cfg now \<longrightarrow>
        roll_day cfg st now = st\<lparr>day_id := Some (day_id_of cfg now), daily_pnl := 0, daily_trades := 0\<rparr>)
   \<and> (day_id st = Some (day_id_of cfg now) \<longrightarrow> roll_day cfg st now = st)
   \<and> (rm_va rm (plan_va_id plan) = Some st \<longrightarrow>
        review_orderplan rm plan now reserve
          = review_orderplan (rm\<lparr>rm_va := (rm_va rm)(plan_va_id plan \<mapsto> roll_day (config rm) st now)\<rparr>)
              plan now reserve)
   \<and> (let t1 = datetime_utc 2025 1 1 23 59;
           t2 = datetime_utc 2025 1 2 0 1;
           r1 = review_orderplan scenario4_manager scenario_plan t1 True;
           r2 = review_orderplan (snd r1) scenario_plan t1 reserve2;
           r3 = review_orderplan (snd r2) scenario_plan t2 reserve3
       in fst r1 = Inr \<lparr>approved = True, reason = None, rr_qty = Some 10\<rparr>
        \<and> fst r2 = Inr \<lparr>approved = False, reason = Some ''max_trades_per_day'', rr_qty = None\<rparr>
        \<and> fst r3 = Inr \<lparr>approved = True, reason = None, rr_qty = Some 10\<rparr>)"
proof (intro conjI impI)
  show "day_id_of cfg now = (now - td_hours (daily_reset_hour_utc cfg)) div microseconds_per_day"
    by (simp add: day_id_of_def Let_def)
  show "roll_day cfg st now = st\<lparr>day_id := Some (day_id_of cfg now)\<rparr>" if "day_id st = None"
    using that by (simp add: roll_day_def Let_def)
  show "roll_day cfg st now = st\<lparr>day_id := Some (day_id_of cfg now), daily_pnl := 0, daily_trades := 0\<rparr>"
    if "day_id st = Some d \<and> d \<noteq> day_id_of cfg now"
    using that by (auto simp add: roll_day_def Let_def)
  show "roll_day cfg st now = st" if "day_id st = Some (day_id_of cfg now)"
    using that by (simp add: roll_day_def Let_def)
  show "review_orderplan rm plan now reserve
          = review_orderplan (rm\<lparr>rm_va := (rm_va rm)(plan_va_id plan \<mapsto> roll_day (config rm) st now)\<rparr>)
              plan now reserve" if "rm_va rm (plan_va_id plan) = Some st"
    using that review_orderplan_rolled [of rm plan now reserve] by (simp add: rolled_def)
  show "let t1 = datetime_utc 2025 1 1 23 59;
           t2 = datetime_utc 2025 1 2 0 1;
           r1 = review_orderplan scenario4_manager scenario_plan t1 True;
           r2 = review_orderplan (snd r1) scenario_plan t1 reserve2;
           r3 = review_orderplan (snd r2) scenario_plan t2 reserve3
       in fst r1 = Inr \<lparr>approved = True, reason = None, rr_qty = Some 10\<rparr>
        \<and> fst r2 = Inr \<lparr>approved = False, reason = Some ''max_trades_per_day'', rr_qty = None\<rparr>
        \<and> fst r3 = Inr \<lparr>approved = True, reason = None, rr_qty = Some 10\<rparr>"
    by (simp add: scenario4_manager_def scenario_plan_def default_risk_config_def
        new_risk_manager_def register_va_def review_orderplan_def review_decision_def
        reserve_trade_def sizer_def calculate_qty_def resolved_stop_price_def loss_decay_def
        would_breach_symbol_exposure_cap_def roll_day_def day_id_of_def datetime_utc_def
        days_from_civil_def td_hours_def td_minutes_def microseconds_per_day_def
        rejected_def Let_def)
qed


text \<open>
  In scenario 4: the first roll stores day 20089 (2025-01-01) and resets nothing, the
  roll at 00:01Z of the next day stores 20090 and resets the daily counters, a roll
  within the same day changes nothing, and the first review is the review of the
  rolled manager.
\<close>

theorem roll_day_before_checks_witness:
  "roll_day (config scenario4_manager)
      \<lparr>virtual_equity = 1000, peak_virtual_equity = 1000, daily_pnl = 0, daily_trades = 0,
       day_id = None, consecutive_losses = 0, kill_switch = False\<rparr> (datetime_utc 2025 1 1 23 59)
     = \<lparr>virtual_equity = 1000, peak_virtual_equity = 1000, daily_pnl = 0, daily_trades = 0,
        day_id = Some 20089, consecutive_losses = 0, kill_switch = False\<rparr>
   \<and> roll_day (config scenario4_manager)
      \<lparr>virtual_equity = 1000, peak_virtual_equity = 1000, daily_pnl = - 5, daily_trades = 1,
       day_id = Some 20089, consecutive_losses = 0, kill_switch = False\<rparr> (datetime_utc 2025 1 2 0 1)
     = \<lparr>virtual_equity = 1000, peak_virtual_equity = 1000, daily_pnl = 0, daily_trades = 0,
        day_id = Some 20090, consecutive_losses = 0, kill_switch = False\<rparr>
   \<and> roll_day (config scenario4_manager)
      \<lparr>virtual_equity = 1000, peak_virtual_equity = 1000, daily_pnl = - 5, daily_trades = 1,
       day_id = Some 20089, consecutive_losses = 0, kill_switch = False\<rparr> (datetime_utc 2025 1 1 23 59)
     = \<lparr>virtual_equity = 1000, peak_virtual_equity = 1000, daily_pnl = - 5, daily_trades = 1,
        day_id = Some 20089, consecutive_losses = 0, kill_switch = False\<rparr>
   \<and> review_orderplan scenario4_manager scenario_plan (datetime_utc 2025 1 1 23 59) True
     = review_orderplan
         (scenario4_manager\<lparr>rm_va := (rm_va scenario4_manager)(''va1'' \<mapsto>
            \<lparr>virtual_equity = 1000, peak_virtual_equity = 1000, daily_pnl = 0, daily_trades = 0,
             day_id = Some 20089, consecutive_losses = 0, kill_switch = False\<rparr>)\<rparr>)
         scenario_plan (datetime_utc 2025 1 1 23 59) True"
proof -
  let ?cfg = "config scenario4_manager"
  let ?fresh = "\<lparr>virtual_equity = 1000, peak_virtual_equity = 1000, daily_pnl = 0,
                 daily_trades = 0, day_id = None, consecutive_losses = 0, kill_switch = False\<rparr>"
  let ?used = "\<lparr>virtual_equity = 1000, peak_virtual_equity = 1000, daily_pnl = - 5,
                daily_trades = 1, day_id = Some 20089, consecutive_losses = 0, kill_switch = False\<rparr>"
  let ?t1 = "datetime_utc 2025 1 1 23 59"
  let ?t2 = "datetime_utc 2025 1 2 0 1"
  have d1: "day_id_of ?cfg ?t1 = 20089" and d2: "day_id_of ?cfg ?t2 = 20090"
    by (simp_all add: scenario4_manager_def default_risk_config_def new_risk_manager_def
        register_va_def day_id_of_def datetime_utc_def days_from_civil_def td_hours_def
        td_minutes_def microseconds_per_day_def Let_def)
  have va: "rm_va scenario4_manager (plan_va_id scenario_plan) = Some ?fresh"
    by (simp add: scenario4_manager_def register_va_def scenario_plan_def)
  show ?thesis
    using roll_day_before_checks [where cfg = ?cfg and st = ?fresh and now = ?t1
        and rm = scenario4_manager and plan = scenario_plan and reserve = True]
      roll_day_before_checks [where cfg = ?cfg and st = ?used and now = ?t2 and d = 20089]
      roll_day_before_checks [where cfg = ?cfg and st = ?used and now = ?t1]
      d1 d2 va
    by (simp add: scenario_plan_def)
qed


section \<open>Strategy evaluator: no lookahead\<close>

lemma closed_candles_idem:
  "closed_candles symbol as_of (closed_candles symbol as_of candles)
     = closed_candles symbol as_of candles"
  by (simp add: closed_candles_def)


text \<open>
  Claim C3, as stated, with \<open>t0 = 0\<close> and the future candle of the tests (open 103,
  high 110, low 102, close 109, closing at \<open>t0 + 25 min\<close>): at \<open>t0 + 24 min 59 s\<close> the
  four candles of scenario 1 are closed, the fourth (close 105) breaks the high 103
  of the first three, and the evaluator returns a plan, not \<^verbatim>\<open>None\<close>.
\<close>

theorem evaluate_future_candle_counterexample:
  "evaluate scenario1_config ''va1'' ''BTCUSDT'' (0 + td_minutes 24 + td_seconds 59)
     (scenario1_candles ''BTCUSDT'' 0 @ [candle_at ''BTCUSDT'' (0 + td_minutes 20) 103 110 102 109])
   \<noteq> Inr None"
  by (simp add: evaluate_def closed_candles_def scenario1_config_def scenario1_candles_def
      candle_at_def td_minutes_def td_seconds_def py_slice_from_def py_max_def py_min_def
      build_plan_def Let_def)


text \<open>
  Claim C3, amended.  The evaluator reads only the candles of the requested symbol
  whose close time is at or before \<^verbatim>\<open>as_of\<close> (its result is its result on those
  candles alone) and returns no signal when fewer than N+1 of them exist.  For the
  candles of scenario 1 and one future candle closing at \<open>t0 + 25 min\<close> with close 109:
  at \<open>t0 + 24 min 59 s\<close> it returns the plan of scenario 1 (buy at 105, stop
  105 - 8/3, take profit 105 + 1.7 \<times> 8/3), the same as at \<open>t0 + 20 min\<close> without the
  future candle; at \<open>t0 + 25 min\<close> it returns a plan whose trigger is the newer candle
  (buy at 109, stop 106, take profit 109 + 1.7 \<times> 3).
\<close>

theorem evaluate_no_lookahead:
  "evaluate scfg va_id symbol as_of candles
     = evaluate scfg va_id symbol as_of (closed_candles symbol as_of candles)
   \<and> (int (length (closed_candles symbol as_of candles)) < lookback_candles scfg + 1 \<longrightarrow>
        evaluate scfg va_id symbol as_of candles = Inr None)
   \<and> evaluate scenario1_config va_id symbol (t0 + td_minutes 24 + td_seconds 59)
        (scenario1_candles symbol t0 @ [candle_at symbol (t0 + td_minutes 20) op hi lo 109])
      = Inr (Some \<lparr>plan_va_id = va_id, plan_symbol = symbol, plan_side = BUY,
                   plan_entry_type = MARKET, plan_entry_price = 105,
                   plan_risk_tag = ''vol_breakout_5m_closed'',
                   plan_stop_loss = Some \<lparr>sl_kind = Fixed, sl_price = Some (105 - 8 / 3),
                                          sl_trail_by = None\<rparr>,
                   plan_take_profit = Some \<lparr>tp_price = 105 + 1.7 * (8 / 3)\<rparr>\<rparr>)
   \<and> evaluate scenario1_config va_id symbol (t0 + td_minutes 24 + td_seconds 59)
        (scenario1_candles symbol t0 @ [candle_at symbol (t0 + td_minutes 20) op hi lo 109])
      = evaluate scenario1_config va_id symbol (t0 + td_minutes 20) (scenario1_candles symbol t0)
   \<and> evaluate scenario1_config va_id symbol (t0 + td_minutes 25)
        (scenario1_candles symbol t0 @ [candle_at symbol (t0 + td_minutes 20) op hi lo 109])
      = Inr (Some \<lparr>plan_va_id = va_id, plan_symbol = symbol, plan_side = BUY,
                   plan_entry_type = MARKET, plan_entry_price = 109,
                   plan_risk_tag = ''vol_breakout_5m_closed'',
                   plan_stop_loss = Some \<lparr>sl_kind = Fixed, sl_price = Some (109 - 3),
                                          sl_trail_by = None\<rparr>,
                   plan_take_profit = Some \<lparr>tp_price = 109 + 1.7 * 3\<rparr>\<rparr>)"
proof (intro conjI impI)
  show "evaluate scfg va_id symbol as_of candles
     = evaluate scfg va_id symbol as_of (closed_candles symbol as_of candles)"
    unfolding evaluate_def closed_candles_idem ..
  show "evaluate scfg va_id symbol as_of candles = Inr None"
    if "int (length (closed_candles symbol as_of candles)) < lookback_candles scfg + 1"
    using that by (simp add: evaluate_def)
  have c1: "closed_candles symbol (t0 + td_minutes 24 + td_seconds 59)
        (scenario1_candles symbol t0 @ [candle_at symbol (t0 + td_minutes 20) op hi lo 109])
      = scenario1_candles symbol t0"
    by (simp add: closed_candles_def scenario1_candles_def candle_at_def td_minutes_def
        td_seconds_def)
  have c0: "closed_candles symbol (t0 + td_minutes 20) (scenario1_candles symbol t0)
      = scenario1_candles symbol t0"
    by (simp add: closed_candles_def scenario1_candles_def candle_at_def td_minutes_def)
  have c2: "closed_candles symbol (t0 + td_minutes 25)
        (scenario1_candles symbol t0 @ [candle_at symbol (t0 + td_minutes 20) op hi lo 109])
      = scenario1_candles symbol t0 @ [candle_at symbol (t0 + td_minutes 20) op hi lo 109]"
    by (simp add: closed_candles_def scenario1_candles_def candle_at_def td_minutes_def)
  show "evaluate scenario1_config va_id symbol (t0 + td_minutes 24 + td_seconds 59)
        (scenario1_candles symbol t0 @ [candle_at symbol (t0 + td_minutes 20) op hi lo 109])
      = Inr (Some \<lparr>plan_va_id = va_id, plan_symbol = symbol, plan_side = BUY,
                   plan_entry_type = MARKET, plan_entry_price = 105,
                   plan_risk_tag = ''vol_breakout_5m_closed'',
                   plan_stop_loss = Some \<lparr>sl_kind = Fixed, sl_price = Some (105 - 8 / 3),
                                          sl_trail_by = None\<rparr>,
                   plan_take_profit = Some \<lparr>tp_price = 105 + 1.7 * (8 / 3)\<rparr>\<rparr>)"
    unfolding evaluate_def c1
    by (simp add: scenario1_config_def scenario1_candles_def candle_at_def py_slice_from_def
        py_max_def py_min_def build_plan_def Let_def)
  show "evaluate scenario1_config va_id symbol (t0 + td_minutes 24 + td_seconds 59)
        (scenario1_candles symbol t0 @ [candle_at symbol (t0 + td_minutes 20) op hi lo 109])
      = evaluate scenario1_config va_id symbol (t0 + td_minutes 20) (scenario1_candles symbol t0)"
    unfolding evaluate_def c1 c0 ..
  show "evaluate scenario1_config va_id symbol (t0 + td_minutes 25)
        (scenario1_candles symbol t0 @ [candle_at symbol (t0 + td_minutes 20) op hi lo 109])
      = Inr (Some \<lparr>plan_va_id = va_id, plan_symbol = symbol, plan_side = BUY,
                   plan_entry_type = MARKET, plan_entry_price = 109,
                   plan_risk_tag = ''vol_breakout_5m_closed'',
                   plan_stop_loss = Some \<lparr>sl_kind = Fixed, sl_price = Some (109 - 3),
                                          sl_trail_by = None\<rparr>,
                   plan_take_profit = Some \<lparr>tp_price = 109 + 1.7 * 3\<rparr>\<rparr>)"
    unfolding evaluate_def c2
    by (simp add: scenario1_config_def scenario1_candles_def candle_at_def py_slice_from_def
        py_max_def py_min_def build_plan_def Let_def)
qed


text \<open>
  At \<open>t0 + 14 min\<close> only two candles of scenario 1 are closed, fewer than 3 + 1: no
  signal.
\<close>

theorem evaluate_no_lookahead_witness:
  "length (closed_candles ''BTCUSDT'' (td_minutes 14) (scenario1_candles ''BTCUSDT'' 0)) = 2
   \<and> evaluate scenario1_config ''va1'' ''BTCUSDT'' (td_minutes 14)
        (scenario1_candles ''BTCUSDT'' 0) = Inr None"
proof -
  have n: "length (closed_candles ''BTCUSDT'' (td_minutes 14) (scenario1_candles ''BTCUSDT'' 0)) = 2"
    by (simp add: closed_candles_def scenario1_candles_def candle_at_def td_minutes_def)
  then have h: "int (length (closed_candles ''BTCUSDT'' (td_minutes 14)
                  (scenario1_candles ''BTCUSDT'' 0))) < lookback_candles scenario1_config + 1"
    by (simp add: scenario1_config_def)
  have "evaluate scenario1_config ''va1'' ''BTCUSDT'' (td_minutes 14)
          (scenario1_candles ''BTCUSDT'' 0) = Inr None"
    using evaluate_no_lookahead [where scfg = scenario1_config and va_id = "''va1''"
        and symbol = "''BTCUSDT''" and as_of = "td_minutes 14"
        and candles = "scenario1_candles ''BTCUSDT'' 0"] h
    by blast
  with n show ?thesis by simp
qed


section \<open>Risk manager: the kill-switch invariant\<close>

lemma round_double_zero: "round_double 0 = 0"
  by (simp add: round_double_def)

lemma round_double_one: "round_double 1 = 1"
  by (simp add: round_double_def binary_exponent_def pow2_def round_half_even_def
      bit_length.simps Let_def)

lemma float_drawdown_fresh: "equity > 0 \<Longrightarrow>
   float_drawdown \<lparr>virtual_equity = equity, peak_virtual_equity = equity, daily_pnl = 0,
      daily_trades = 0, day_id = None, consecutive_losses = 0, kill_switch = False\<rparr> = 0"
  by (simp add: float_drawdown_def float_sub_def float_div_def round_double_one
      round_double_zero)

lemma float_drawdown_roll_day: "float_drawdown (roll_day cfg st now) = float_drawdown st"
  by (simp add: float_drawdown_def roll_day_def Let_def split: option.splits)

lemma latched_apply_trade_pnl: "kill_switch_latched cfg (apply_trade_pnl cfg st pnl now)"
  by (auto simp: kill_switch_latched_def float_drawdown_def apply_trade_pnl_def Let_def max_def)

lemma latched_roll_day:
  "kill_switch_latched cfg st \<Longrightarrow> kill_switch_latched cfg (roll_day cfg' st now)"
  by (auto simp: kill_switch_latched_def float_drawdown_def roll_day_def Let_def
      split: option.splits if_splits)

lemma latched_daily_trades:
  "kill_switch_latched cfg st \<Longrightarrow> kill_switch_latched cfg (st\<lparr>daily_trades := n\<rparr>)"
  by (auto simp: kill_switch_latched_def float_drawdown_def split: if_splits)

lemma latched_fresh:
  "equity > 0 \<Longrightarrow> max_drawdown_pct cfg > 0 \<Longrightarrow>
   kill_switch_latched cfg \<lparr>virtual_equity = equity, peak_virtual_equity = equity, daily_pnl = 0,
      daily_trades = 0, day_id = None, consecutive_losses = 0, kill_switch = False\<rparr>"
  by (simp add: kill_switch_latched_def float_drawdown_fresh)

lemma config_review_orderplan: "config (snd (review_orderplan rm plan now reserve)) = config rm"
  by (simp add: review_orderplan_def reserve_trade_def Let_def split: option.splits sum.splits)

lemma rm_va_review_orderplan:
  "rm_va (snd (review_orderplan rm plan now reserve)) v = Some st \<Longrightarrow>
   rm_va rm v = Some st
   \<or> (\<exists>st0. rm_va rm v = Some st0 \<and>
         (st = roll_day (config rm) st0 now
          \<or> st = (roll_day (config rm) st0 now)\<lparr>daily_trades :=
                   daily_trades (roll_day (config rm) st0 now) + 1\<rparr>))"
  by (auto simp: review_orderplan_def reserve_trade_def Let_def
      split: option.splits sum.splits if_splits)

lemma config_step: "config (step rm c) = config rm"
  by (cases c)
    (simp_all add: register_va_def apply_governor_breach_def record_trade_pnl_def
      record_position_def config_review_orderplan Let_def split: option.splits)

lemma config_run: "config (run rm calls) = config rm"
  unfolding run_def by (induction calls arbitrary: rm) (simp_all add: config_step)

lemma all_latched_step:
  assumes "all_latched rm" and "positive_registration c" and "max_drawdown_pct (config rm) > 0"
  shows "all_latched (step rm c)"
proof (cases c)
  case (RegisterVa va_id equity)
  with assms show ?thesis
    by (auto simp: all_latched_def register_va_def latched_fresh)
next
  case (ApplyGovernorBreach va_id symbol now cooldown)
  with assms show ?thesis by (simp add: all_latched_def apply_governor_breach_def)
next
  case (RecordTradePnl va_id symbol pnl now)
  with assms show ?thesis
    by (auto simp: all_latched_def record_trade_pnl_def latched_apply_trade_pnl
        split: option.splits if_splits)
next
  case (RecordPosition va_id symbol qty avg)
  with assms show ?thesis
    by (simp add: all_latched_def record_position_def Let_def)
next
  case (ReviewOrderplan plan now reserve)
  show ?thesis
    unfolding all_latched_def
  proof (intro allI impI)
    fix v st
    assume "rm_va (step rm c) v = Some st"
    then have "rm_va (snd (review_orderplan rm plan now reserve)) v = Some st"
      using ReviewOrderplan by simp
    from rm_va_review_orderplan [OF this] assms(1)
    show "kill_switch_latched (config (step rm c)) st"
      by (auto simp: all_latched_def config_step latched_roll_day latched_daily_trades)
  qed
qed

lemma all_latched_run:
  "all_latched rm \<Longrightarrow> list_all positive_registration calls \<Longrightarrow>
   max_drawdown_pct (config rm) > 0 \<Longrightarrow> all_latched (run rm calls)"
  unfolding run_def
proof (induction calls arbitrary: rm)
  case Nil
  then show ?case by simp
next
  case (Cons c calls)
  then show ?case by (simp add: all_latched_step config_step)
qed

text \<open>The float operations of the two scenarios below, evaluated.\<close>

lemma float_add_100_minus_9: "float_add 100 (- 9) = 91"
  by (simp add: float_add_def round_double_def binary_exponent_def pow2_def
      round_half_even_def bit_length.simps Let_def)

lemma float_add_0_minus_9: "float_add 0 (- 9) = - 9"
  by (simp add: float_add_def round_double_def binary_exponent_def pow2_def
      round_half_even_def bit_length.simps Let_def)

lemma float_drawdown_91_of_100:
  "float_sub 1 (float_div 91 100) = 810647932926689 / 9007199254740992"
  by (simp add: float_sub_def float_div_def round_double_def binary_exponent_def pow2_def
      round_half_even_def bit_length.simps Let_def)

lemma round_double_9_percent: "round_double (9 / 100) = 3242591731706757 / 36028797018963968"
  by (simp add: round_double_def binary_exponent_def pow2_def round_half_even_def
      bit_length.simps Let_def)

lemma float_add_1000_minus_400: "float_add 1000 (- 400) = 600"
  by (simp add: float_add_def round_double_def binary_exponent_def pow2_def
      round_half_even_def bit_length.simps Let_def)

lemma float_add_0_minus_400: "float_add 0 (- 400) = - 400"
  by (simp add: float_add_def round_double_def binary_exponent_def pow2_def
      round_half_even_def bit_length.simps Let_def)

lemma float_drawdown_600_of_1000:
  "float_sub 1 (float_div 600 1000) = 3602879701896397 / 9007199254740992"
  by (simp add: float_sub_def float_div_def round_double_def binary_exponent_def pow2_def
      round_half_even_def bit_length.simps Let_def)

text \<open>
  Claim C4, as stated, fails in two ways.  After the single call
  \<^verbatim>\<open>register_va(va_id="va1", virtual_equity=0)\<close> on a new manager the account is tracked
  with virtual equity 0 and its kill switch is off.  And with
  \<^verbatim>\<open>max_drawdown_pct=0.09\<close>, an account registered with 100 that records a loss of 9
  has virtual equity 91 and peak 100: its drawdown \<open>1 - 91 / 100\<close> is at the limit,
  but \<^verbatim>\<open>1.0 - 91.0 / 100\<close> is 0.08999999999999997 in floats, below the limit, and
  its kill switch is off.
\<close>

theorem register_va_zero_equity_counterexample:
  "rm_va (run (new_risk_manager default_risk_config 10000) [RegisterVa ''va1'' 0]) ''va1''
     = Some \<lparr>virtual_equity = 0, peak_virtual_equity = 0, daily_pnl = 0, daily_trades = 0,
             day_id = None, consecutive_losses = 0, kill_switch = False\<rparr>
   \<and> virtual_equity \<lparr>virtual_equity = 0, peak_virtual_equity = 0, daily_pnl = 0,
         daily_trades = 0, day_id = None, consecutive_losses = 0, kill_switch = False\<rparr> \<le> 0
   \<and> \<not> kill_switch \<lparr>virtual_equity = 0, peak_virtual_equity = 0, daily_pnl = 0,
         daily_trades = 0, day_id = None, consecutive_losses = 0, kill_switch = False\<rparr>
   \<and> rm_va (run (new_risk_manager drawdown_limit_config 10000)
              [RegisterVa ''va1'' 100, RecordTradePnl ''va1'' ''BTCUSDT'' (- 9) noon]) ''va1''
     = Some \<lparr>virtual_equity = 91, peak_virtual_equity = 100, daily_pnl = - 9, daily_trades = 0,
             day_id = Some (day_id_of drawdown_limit_config noon), consecutive_losses = 1,
             kill_switch = False\<rparr>
   \<and> (1::real) - 91 / 100 \<ge> max_drawdown_pct drawdown_limit_config
   \<and> float_sub 1 (float_div 91 100) < max_drawdown_pct drawdown_limit_config"
  by (simp add: run_def register_va_def new_risk_manager_def record_trade_pnl_def
      apply_trade_pnl_def roll_day_def drawdown_limit_config_def default_risk_config_def
      float_add_100_minus_9 float_add_0_minus_9 float_drawdown_91_of_100
      round_double_9_percent Let_def)

text \<open>
  Claim C4, amended.  With a positive \<^verbatim>\<open>max_drawdown_pct\<close>, after any sequence of
  \<^verbatim>\<open>register_va\<close>, \<^verbatim>\<open>apply_governor_breach\<close>, \<^verbatim>\<open>review_orderplan\<close>,
  \<^verbatim>\<open>record_trade_pnl\<close> and \<^verbatim>\<open>record_position\<close> calls on a new manager in which every
  registration gives a positive virtual equity, every tracked account whose virtual
  equity is not positive, or whose drawdown, computed in floats as
  \<^verbatim>\<open>1.0 - virtual_equity / peak_virtual_equity\<close>, has reached \<^verbatim>\<open>max_drawdown_pct\<close>
  while its peak is positive, has its kill switch on.
\<close>

theorem kill_switch_invariant:
  assumes "max_drawdown_pct cfg > 0"
    and "list_all positive_registration calls"
    and "rm_va (run (new_risk_manager cfg equity) calls) va_id = Some st"
  shows "(virtual_equity st \<le> 0
          \<or> (peak_virtual_equity st > 0
              \<and> float_sub 1 (float_div (virtual_equity st) (peak_virtual_equity st))
                  \<ge> max_drawdown_pct cfg))
         \<longrightarrow> kill_switch st"
proof -
  have "all_latched (new_risk_manager cfg equity)"
    by (simp add: all_latched_def new_risk_manager_def)
  then have "all_latched (run (new_risk_manager cfg equity) calls)"
    using assms(1,2) by (intro all_latched_run) (simp_all add: new_risk_manager_def)
  then have "kill_switch_latched cfg st"
    using assms(3) by (auto simp: all_latched_def config_run new_risk_manager_def)
  then show ?thesis
    by (auto simp: kill_switch_latched_def float_drawdown_def split: if_splits)
qed

text \<open>
  An account of 1000 that loses 400 in one trade has the float drawdown
  \<^verbatim>\<open>1.0 - 600.0 / 1000\<close>, above the default 0.30: its kill switch is on.
\<close>

theorem kill_switch_invariant_witness:
  "rm_va (run (new_risk_manager default_risk_config 10000)
            [RegisterVa ''va1'' 1000, RecordTradePnl ''va1'' ''BTCUSDT'' (- 400) noon]) ''va1''
     = Some \<lparr>virtual_equity = 600, peak_virtual_equity = 1000, daily_pnl = - 400,
             daily_trades = 0, day_id = Some (day_id_of default_risk_config noon),
             consecutive_losses = 1, kill_switch = True\<rparr>
   \<and> float_sub 1 (float_div 600 1000) \<ge> max_drawdown_pct default_risk_config"
  using kill_switch_invariant [where cfg = default_risk_config and equity = 10000
      and calls = "[RegisterVa ''va1'' 1000, RecordTradePnl ''va1'' ''BTCUSDT'' (- 400) noon]"
      and va_id = "''va1''"
      and st = "\<lparr>virtual_equity = 600, peak_virtual_equity = 1000, daily_pnl = - 400,
             daily_trades = 0, day_id = Some (day_id_of default_risk_config noon),
             consecutive_losses = 1, kill_switch = True\<rparr>"]
  by (simp add: run_def register_va_def new_risk_manager_def record_trade_pnl_def
      apply_trade_pnl_def roll_day_def default_risk_config_def
      float_add_1000_minus_400 float_add_0_minus_400 float_drawdown_600_of_1000 Let_def)


section \<open>Risk manager: positions and symbol ownership\<close>

lemma rm_positions_review_orderplan:
  "rm_positions (snd (review_orderplan rm plan now reserve)) = rm_positions rm"
  by (simp add: review_orderplan_def reserve_trade_def Let_def split: option.splits sum.splits)

lemma positions_wf_update:
  "positions_wf ps \<Longrightarrow> qty \<noteq> 0 \<Longrightarrow>
   positions_wf (AList.update (va_id, symbol)
      \<lparr>pos_va_id = va_id, pos_symbol = symbol, pos_qty = qty, pos_avg_entry_price = avg\<rparr> ps)"
  unfolding positions_wf_def
  by (induction ps) auto

lemma positions_wf_delete: "positions_wf ps \<Longrightarrow> positions_wf (AList.delete k ps)"
  unfolding positions_wf_def
  by (induction ps) auto

lemma positions_wf_step: "positions_wf (rm_positions rm) \<Longrightarrow> positions_wf (rm_positions (step rm c))"
  by (cases c)
    (simp_all add: register_va_def apply_governor_breach_def record_trade_pnl_def
      record_position_def rm_positions_review_orderplan Let_def positions_wf_update
      positions_wf_delete split: option.splits)

lemma positions_wf_run:
  "positions_wf (rm_positions rm) \<Longrightarrow> positions_wf (rm_positions (run rm calls))"
  unfolding run_def
  by (induction calls arbitrary: rm) (simp_all add: positions_wf_step)

lemma any_position_iff:
  assumes "positions_wf (rm_positions rm)"
  shows "any_position_for_symbol rm symbol
           \<longleftrightarrow> (\<exists>v. map_of (rm_positions rm) (v, symbol) \<noteq> None)"
proof
  assume "any_position_for_symbol rm symbol"
  then obtain k p where kp: "(k, p) \<in> set (rm_positions rm)" and s: "pos_symbol p = symbol"
    by (auto simp: any_position_for_symbol_def list_ex_iff)
  from assms kp have "pos_symbol p = snd k"
    by (auto simp: positions_wf_def list_all_iff)
  with s have "k = (fst k, symbol)" by (cases k) simp
  with kp have "(fst k, symbol) \<in> fst ` set (rm_positions rm)"
    by (metis fst_conv image_eqI)
  then have "map_of (rm_positions rm) (fst k, symbol) \<noteq> None"
    by (simp add: map_of_eq_None_iff)
  then show "\<exists>v. map_of (rm_positions rm) (v, symbol) \<noteq> None" ..
next
  assume "\<exists>v. map_of (rm_positions rm) (v, symbol) \<noteq> None"
  then obtain v p where "map_of (rm_positions rm) (v, symbol) = Some p" by auto
  then have kp: "((v, symbol), p) \<in> set (rm_positions rm)" by (rule map_of_SomeD)
  with assms have "pos_symbol p = symbol \<and> pos_qty p \<noteq> 0"
    by (auto simp: positions_wf_def list_all_iff)
  with kp show "any_position_for_symbol rm symbol"
    by (force simp: any_position_for_symbol_def list_ex_iff)
qed


text \<open>
  Claim C7.  In every state a new manager reaches by a sequence of its public calls,
  for every account, symbol, non-zero quantity and price: recording the position and
  then recording quantity 0 for the same account and symbol removes that position,
  leaves every other position as it was, and releases the ownership of the symbol if
  and only if no position on that symbol remains in the position map.
\<close>

theorem record_position_round_trip:
  assumes "q \<noteq> 0"
    and "rm = run (new_risk_manager cfg equity) calls"
    and "rm' = record_position (record_position rm va_id symbol q ap) va_id symbol 0 ap'"
  shows "map_of (rm_positions rm') (va_id, symbol) = None
       \<and> rm_positions rm' = AList.delete (va_id, symbol) (rm_positions rm)
       \<and> (rm_symbol_owner rm' symbol = None
            \<longleftrightarrow> (\<forall>v. map_of (rm_positions rm') (v, symbol) = None))"
proof -
  have wf: "positions_wf (rm_positions rm)"
    unfolding assms(2) by (rule positions_wf_run) (simp add: new_risk_manager_def positions_wf_def)
  have ps: "rm_positions rm' = AList.delete (va_id, symbol) (rm_positions rm)"
    using assms(1) unfolding assms(3)
    by (simp add: record_position_def Let_def delete_update_same)
  have wf': "positions_wf (rm_positions rm')"
    unfolding ps using wf by (rule positions_wf_delete)
  have gone: "map_of (rm_positions rm') (va_id, symbol) = None"
    unfolding ps by (simp add: delete_conv')
  have any: "any_position_for_symbol rm' symbol
      = any_position_for_symbol
          (record_position rm va_id symbol q ap
             \<lparr>rm_positions := AList.delete (va_id, symbol)
                 (rm_positions (record_position rm va_id symbol q ap))\<rparr>) symbol"
    using assms(1) unfolding assms(3)
    by (simp add: any_position_for_symbol_def record_position_def Let_def)
  have owner: "rm_symbol_owner rm' symbol = None \<longleftrightarrow> \<not> any_position_for_symbol rm' symbol"
    unfolding any using assms(1) unfolding assms(3)
    by (simp add: record_position_def Let_def)
  show ?thesis
    using gone ps owner any_position_iff [OF wf', of symbol] by auto
qed


text \<open>
  On a new manager the round trip of \<^verbatim>\<open>va1\<close> releases BTCUSDT; when \<^verbatim>\<open>va2\<close> has a
  position on BTCUSDT, that position remains and the symbol stays owned.
\<close>

theorem record_position_round_trip_witness:
  "rm_symbol_owner
     (record_position (record_position (run (new_risk_manager default_risk_config 10000) [])
        ''va1'' ''BTCUSDT'' 1 100) ''va1'' ''BTCUSDT'' 0 0) ''BTCUSDT'' = None
   \<and> rm_symbol_owner
     (record_position (record_position
        (run (new_risk_manager default_risk_config 10000) [RecordPosition ''va2'' ''BTCUSDT'' 2 90])
        ''va1'' ''BTCUSDT'' 1 100) ''va1'' ''BTCUSDT'' 0 0) ''BTCUSDT'' = Some ''va1''
   \<and> rm_positions
     (record_position (record_position
        (run (new_risk_manager default_risk_config 10000) [RecordPosition ''va2'' ''BTCUSDT'' 2 90])
        ''va1'' ''BTCUSDT'' 1 100) ''va1'' ''BTCUSDT'' 0 0)
     = [((''va2'', ''BTCUSDT''), \<lparr>pos_va_id = ''va2'', pos_symbol = ''BTCUSDT'', pos_qty = 2,
                                   pos_avg_entry_price = 90\<rparr>)]"
  using record_position_round_trip [where q = 1 and cfg = default_risk_config and equity = 10000
      and calls = "[]" and va_id = "''va1''" and symbol = "''BTCUSDT''" and ap = 100 and ap' = 0,
      OF _ refl refl]
    record_position_round_trip [where q = 1 and cfg = default_risk_config and equity = 10000
      and calls = "[RecordPosition ''va2'' ''BTCUSDT'' 2 90]" and va_id = "''va1''"
      and symbol = "''BTCUSDT''" and ap = 100 and ap' = 0, OF _ refl refl]
  by (simp add: run_def new_risk_manager_def record_position_def any_position_for_symbol_def
      Let_def)

end
